theory Spec2Isabelle
  imports Main "HOL-Library.Word" "HOL-Library.Sublist"
begin

section \<open>Values, errors and the console\<close>

text \<open>
  Values that travel through metadata and template contexts. Objects are finite maps from
  property names to values; the spread \<open>{...a, ...b}\<close> of two objects is \<open>a ++ b\<close>.
\<close>

datatype jsval =
    VStr string
  | VNum int
  | VBool bool
  | VObj "string \<Rightarrow> jsval option"

type_synonym Metadata = "string \<Rightarrow> jsval option"
type_synonym TemplateContext = "string \<Rightarrow> jsval option"

text \<open>
  Thrown values. JavaScript can throw any value, and the \<open>catch\<close> blocks of the program
  receive whatever was thrown. \<open>DenoError c m\<close> is an instance of the runtime's error class
  \<open>Deno.errors.c\<close> (its \<open>name\<close> property is \<open>c\<close>); \<open>JsError n m\<close> is any other Error object
  whose \<open>name\<close> property is \<open>n\<close> (\<open>new Error(m)\<close> is \<open>JsError ''Error'' m\<close>);
  \<open>ThrownOther\<close> is any other value that is not \<open>null\<close> or \<open>undefined\<close> and has no
  string as its \<open>name\<close> property (a thrown string or number, a plain object);
  \<open>ThrownNull\<close> and \<open>ThrownUndefined\<close> are the values \<open>null\<close> and \<open>undefined\<close>.
\<close>

datatype thrown =
    DenoError string string
  | JsError string string
  | ThrownOther
  | ThrownNull
  | ThrownUndefined

text \<open>\<open>error == null\<close>: the thrown value is \<open>null\<close> or \<open>undefined\<close>.\<close>

fun nullish :: "thrown \<Rightarrow> bool" where
  "nullish ThrownNull = True"
| "nullish ThrownUndefined = True"
| "nullish (DenoError c m) = False"
| "nullish (JsError n m) = False"
| "nullish ThrownOther = False"

text \<open>
  The property read \<open>error.name\<close>: the name when it is a string, \<open>None\<close> when the value
  has none, and for \<open>null\<close> and \<open>undefined\<close> the read itself throws a \<open>TypeError\<close>.
\<close>

fun error_name :: "thrown \<Rightarrow> thrown + string option" where
  "error_name (DenoError c m) = Inr (Some c)"
| "error_name (JsError n m) = Inr (Some n)"
| "error_name ThrownOther = Inr None"
| "error_name ThrownNull =
     Inl (JsError ''TypeError'' ''Cannot read properties of null (reading 'name')'')"
| "error_name ThrownUndefined =
     Inl (JsError ''TypeError'' ''Cannot read properties of undefined (reading 'name')'')"

text \<open>\<open>error instanceof Deno.errors.NotFound\<close>\<close>

fun instanceof_NotFound :: "thrown \<Rightarrow> bool" where
  "instanceof_NotFound (DenoError c m) = (c = ''NotFound'')"
| "instanceof_NotFound (JsError n m) = False"
| "instanceof_NotFound ThrownOther = False"
| "instanceof_NotFound ThrownNull = False"
| "instanceof_NotFound ThrownUndefined = False"

datatype console_line =
    ConsoleLog string
  | ConsoleError string thrown

section \<open>Data model\<close>

record ContentSource =
  source_type :: string
  source_path :: string
  source_route :: string

record PluginContext =
  ctx_contentType :: string
  ctx_route :: string
  ctx_templateDir :: string
  ctx_contentSources :: "string \<Rightarrow> string option"
  ctx_siteUrl :: string

text \<open>The value a transform hook returns: \<open>{content, metadata?}\<close>.\<close>

record TransformResult =
  result_content :: string
  result_metadata :: "Metadata option"

text \<open>A plugin exposes two optional hooks; a hook may throw.\<close>

record Plugin =
  transform :: "(string \<Rightarrow> PluginContext \<Rightarrow> thrown + TransformResult) option"
  extendTemplate :: "(TemplateContext \<Rightarrow> thrown + TemplateContext) option"

record PluginConfig =
  plugin_name :: string
  plugin_options :: jsval

text \<open>A compiled template: a function from a context to text that may throw.\<close>

type_synonym Template = "TemplateContext \<Rightarrow> thrown + string"

record TemplateEngineConfig =
  baseDir :: string
  extname :: string
  layoutsDir :: string
  partialsDir :: string
  defaultLayout :: string

text \<open>
  \<open>handlebars_compile\<close> stands for \<open>this.handlebars.compile(_, this.config.compilerOptions)\<close>
  of the engine's own Handlebars instance, with its helpers and partials.
\<close>

record TemplateEngine =
  config :: TemplateEngineConfig
  handlebars_compile :: "string \<Rightarrow> Template"

text \<open>
  The runtime the program calls into: the file system as \<open>Deno.readTextFile\<close>,
  \<open>Deno.readFile\<close> and \<open>exists\<close> of \<open>@std/fs\<close> see it during one request, \<open>join\<close> and
  \<open>extname\<close> of \<open>@std/path\<close>, and \<open>contentType\<close> of \<open>@std/media-types\<close>.
\<close>

record runtime =
  readTextFile :: "string \<Rightarrow> thrown + string"
  readFile :: "string \<Rightarrow> thrown + 8 word list"
  fs_exists :: "string \<Rightarrow> thrown + bool"
  path_join :: "string list \<Rightarrow> string"
  path_extname :: "string \<Rightarrow> string"
  media_contentType :: "string \<Rightarrow> string option"

text \<open>
  The fields of class \<open>SimplSite\<close>. \<open>plugins\<close> is a \<open>Map<string, Plugin>\<close>: an association
  list in insertion order with distinct keys. \<open>markdownProcessor\<close> stands for
  \<open>this.markdownProcessor.execute\<close>, which returns \<open>{content, metadata}\<close>.
\<close>

record SimplSite =
  plugins :: "(string \<times> Plugin) list"
  contentSources :: "ContentSource list"
  defaultContentType :: string
  templateDir :: string
  customPluginsDir :: "string option"
  assetsDir :: string
  markdownProcessor :: "string \<Rightarrow> thrown + (string \<times> Metadata)"
  templateEngine :: TemplateEngine
  siteUrl :: string
  siteTitle :: string

record WebsiteConfig =
  cfg_contentSources :: "ContentSource list"
  cfg_defaultContentType :: string
  cfg_templateDir :: string
  cfg_customPluginsDir :: "string option"
  cfg_assetsDir :: "string option"
  cfg_siteUrl :: "string option"
  cfg_siteTitle :: "string option"
  cfg_plugins :: "PluginConfig list"

text \<open>What \<open>renderContent\<close> returns, and what \<open>serveStaticFile\<close> and \<open>handleRequest\<close> return.\<close>

record rendered =
  rendered_content :: string
  rendered_status :: nat

record static_file =
  static_content :: "8 word list"
  static_contentType :: string

datatype body = Text string | Bytes "8 word list"

record response =
  response_content :: body
  response_contentType :: string
  response_status :: nat

section \<open>Mutable state and the error monad\<close>

text \<open>
  The state a request reads and writes: the template engine's \<open>compiledTemplates\<close> cache
  and the lines written to the console. A computation takes the state and returns the
  value it produced or the value it threw, with the state it left.
\<close>

record state =
  compiledTemplates :: "string \<Rightarrow> Template option"
  console :: "console_line list"

type_synonym 'a io = "state \<Rightarrow> (thrown + 'a) \<times> state"

definition returnE :: "'a \<Rightarrow> 'a io" where
  "returnE x = (\<lambda>s. (Inr x, s))"

definition throwE :: "thrown \<Rightarrow> 'a io" where
  "throwE e = (\<lambda>s. (Inl e, s))"

definition liftE :: "thrown + 'a \<Rightarrow> 'a io" where
  "liftE r = (\<lambda>s. (r, s))"

definition bindE :: "'a io \<Rightarrow> ('a \<Rightarrow> 'b io) \<Rightarrow> 'b io" where
  "bindE m f = (\<lambda>s. case m s of (Inl e, s') \<Rightarrow> (Inl e, s') | (Inr x, s') \<Rightarrow> f x s')"

text \<open>\<open>try { m } catch (error) { h error }\<close>\<close>

definition catchE :: "'a io \<Rightarrow> (thrown \<Rightarrow> 'a io) \<Rightarrow> 'a io" where
  "catchE m h = (\<lambda>s. case m s of (Inl e, s') \<Rightarrow> h e s' | (Inr x, s') \<Rightarrow> (Inr x, s'))"

definition console_log :: "string \<Rightarrow> unit io" where
  "console_log msg = (\<lambda>s. (Inr (), s\<lparr>console := console s @ [ConsoleLog msg]\<rparr>))"

definition console_error :: "string \<Rightarrow> thrown \<Rightarrow> unit io" where
  "console_error msg e = (\<lambda>s. (Inr (), s\<lparr>console := console s @ [ConsoleError msg e]\<rparr>))"

text \<open>\<open>a || b\<close> on an optional string: the empty string is falsy.\<close>

definition or_default :: "string option \<Rightarrow> string \<Rightarrow> string" where
  "or_default a b = (case a of None \<Rightarrow> b | Some v \<Rightarrow> if v = [] then b else v)"

section \<open>TemplateEngine\<close>

text \<open>
  The constructor: the defaults, overridden by the \<open>baseDir\<close> the site passes
  (\<open>new TemplateEngine({baseDir: this.templateDir, helpers, compilerOptions})\<close>).
\<close>

definition TemplateEngine_new :: "string \<Rightarrow> (string \<Rightarrow> Template) \<Rightarrow> TemplateEngine" where
  "TemplateEngine_new dir compile =
     \<lparr>config = \<lparr>baseDir = dir, extname = ''.hbs'', layoutsDir = ''layouts/'',
                 partialsDir = ''partials/'', defaultLayout = ''base''\<rparr>,
      handlebars_compile = compile\<rparr>"

text \<open>
  The cache lookup that \<open>render\<close> writes out twice, for the template and for the layout:
  \<open>let t = this.compiledTemplates.get(p); if (!t) { read p; compile; this.compiledTemplates.set(p, t) }\<close>.
\<close>

definition compiledTemplate :: "runtime \<Rightarrow> TemplateEngine \<Rightarrow> string \<Rightarrow> Template io" where
  "compiledTemplate rt engine p = (\<lambda>s.
     case compiledTemplates s p of
       Some t \<Rightarrow> (Inr t, s)
     | None \<Rightarrow>
         (case readTextFile rt p of
            Inl e \<Rightarrow> (Inl e, s)
          | Inr templateContent \<Rightarrow>
              (let t = handlebars_compile engine templateContent
               in (Inr t, s\<lparr>compiledTemplates := (compiledTemplates s)(p \<mapsto> t)\<rparr>))))"

definition templatePath :: "runtime \<Rightarrow> TemplateEngine \<Rightarrow> string \<Rightarrow> string" where
  "templatePath rt engine templateName =
     path_join rt [baseDir (config engine), templateName @ extname (config engine)]"

definition layoutPath :: "runtime \<Rightarrow> TemplateEngine \<Rightarrow> string" where
  "layoutPath rt engine =
     path_join rt [baseDir (config engine), layoutsDir (config engine),
                   defaultLayout (config engine) @ extname (config engine)]"

definition render :: "runtime \<Rightarrow> TemplateEngine \<Rightarrow> string \<Rightarrow> TemplateContext \<Rightarrow> string io" where
  "render rt engine templateName context =
     bindE (console_log (''Rendering template: '' @ templateName)) (\<lambda>_.
     catchE
       (bindE (liftE (fs_exists rt (templatePath rt engine templateName))) (\<lambda>templateExists.
        if \<not> templateExists
        then throwE (JsError ''Error''
               (''Template not found: '' @ templatePath rt engine templateName))
        else
          bindE (compiledTemplate rt engine (templatePath rt engine templateName)) (\<lambda>template.
          bindE (liftE (template context)) (\<lambda>result.
          bindE (liftE (fs_exists rt (layoutPath rt engine))) (\<lambda>layoutExists.
          bindE (if layoutExists
                 then bindE (compiledTemplate rt engine (layoutPath rt engine)) (\<lambda>layout.
                        liftE (layout (context(''body'' \<mapsto> VStr result))))
                 else returnE result) (\<lambda>result.
          bindE (console_log (''Template rendered successfully: '' @ templateName)) (\<lambda>_.
          returnE result)))))))
       (\<lambda>error.
          bindE (console_error (''Error rendering template '' @ templateName @ '':'') error) (\<lambda>_.
          throwE error)))"

section \<open>SimplSite\<close>

subsection \<open>Plugin registration\<close>

text \<open>\<open>Map.prototype.set\<close>: an existing key keeps its place and gets the new value, a new key goes last.\<close>

fun Map_set :: "'k \<Rightarrow> 'v \<Rightarrow> ('k \<times> 'v) list \<Rightarrow> ('k \<times> 'v) list" where
  "Map_set k v [] = [(k, v)]"
| "Map_set k v (e # es) = (if fst e = k then (k, v) # es else e # Map_set k v es)"

text \<open>
  \<open>getPluginClass\<close> of \<open>utils/PluginRegistry.ts\<close> is a parameter: given a name it returns a
  plugin class or throws; the class, given options, constructs a plugin or throws.
  The loop threads \<open>this.plugins\<close> and the console. (The repository keeps a second copy
  of the class whose \<open>initializePlugins\<close> imports each plugin module from
  \<open>customPluginsDir\<close> instead; it stores the plugin with the same \<open>this.plugins.set\<close>,
  and its other methods are the same.)
\<close>

type_synonym PluginClass = "jsval \<Rightarrow> thrown + Plugin"

fun initializePlugins ::
  "(string \<Rightarrow> thrown + PluginClass) \<Rightarrow> PluginConfig list \<Rightarrow>
   (string \<times> Plugin) list \<times> console_line list \<Rightarrow> (string \<times> Plugin) list \<times> console_line list"
where
  "initializePlugins getPluginClass [] st = st"
| "initializePlugins getPluginClass (pluginConfig # rest) (ps, con) =
     initializePlugins getPluginClass rest
       (case (case getPluginClass (plugin_name pluginConfig) of
                Inl error \<Rightarrow> Inl error
              | Inr PluginClass \<Rightarrow> PluginClass (plugin_options pluginConfig)) of
          Inr plugin \<Rightarrow>
            (Map_set (plugin_name pluginConfig) plugin ps,
             con @ [ConsoleLog (''Successfully loaded and initialized plugin: '' @
                                plugin_name pluginConfig)])
        | Inl error \<Rightarrow>
            (ps, con @ [ConsoleError (''Error loading plugin '' @ plugin_name pluginConfig @ '':'')
                          error]))"

text \<open>
  The constructor, with the collaborators it creates or imports (\<open>MarkdownProcessor\<close>,
  Handlebars, the plugin registry) as parameters. It returns the site and the console
  lines of plugin loading.
\<close>

definition SimplSite_new ::
  "(string \<Rightarrow> thrown + (string \<times> Metadata)) \<Rightarrow> (string \<Rightarrow> Template) \<Rightarrow>
   (string \<Rightarrow> thrown + PluginClass) \<Rightarrow> WebsiteConfig \<Rightarrow> SimplSite \<times> console_line list" where
  "SimplSite_new markdown compile getPluginClass cfg =
     (let (ps, con) = initializePlugins getPluginClass (cfg_plugins cfg) ([], [])
      in (\<lparr>plugins = ps,
           contentSources = cfg_contentSources cfg,
           defaultContentType = cfg_defaultContentType cfg,
           templateDir = cfg_templateDir cfg,
           customPluginsDir = cfg_customPluginsDir cfg,
           assetsDir = or_default (cfg_assetsDir cfg) ''assets'',
           markdownProcessor = markdown,
           templateEngine = TemplateEngine_new (cfg_templateDir cfg) compile,
           siteUrl = or_default (cfg_siteUrl cfg) ''http://localhost:8000'',
           siteTitle = or_default (cfg_siteTitle cfg) ''My Simpl Site''\<rparr>, con))"

subsection \<open>Loading and processing content\<close>

definition getContent :: "runtime \<Rightarrow> SimplSite \<Rightarrow> string \<Rightarrow> string \<Rightarrow> string io" where
  "getContent rt this path type =
     (case find (\<lambda>src. source_type src = type) (contentSources this) of
        None \<Rightarrow> throwE (JsError ''Error'' (''Unknown content type: '' @ type))
      | Some source \<Rightarrow> liftE (readTextFile rt (path_join rt [source_path source, path])))"

text \<open>\<open>Object.fromEntries\<close> of a list of pairs: a later pair with the same key wins.\<close>

definition fromEntries :: "('k \<times> 'v) list \<Rightarrow> 'k \<Rightarrow> 'v option" where
  "fromEntries kvs = map_of (rev kvs)"

definition pluginContext :: "SimplSite \<Rightarrow> string \<Rightarrow> string \<Rightarrow> PluginContext" where
  "pluginContext this type route =
     \<lparr>ctx_contentType = type,
      ctx_route = route,
      ctx_templateDir = templateDir this,
      ctx_contentSources =
        fromEntries (map (\<lambda>source. (source_type source, source_path source)) (contentSources this)),
      ctx_siteUrl = siteUrl this\<rparr>"

text \<open>The loop \<open>for (const plugin of this.plugins.values())\<close> of \<open>processContent\<close>.\<close>

fun transformLoop ::
  "Plugin list \<Rightarrow> PluginContext \<Rightarrow> string \<Rightarrow> Metadata \<Rightarrow> (string \<times> Metadata) io" where
  "transformLoop [] context processedContent metadata = returnE (processedContent, metadata)"
| "transformLoop (plugin # rest) context processedContent metadata =
     (case transform plugin of
        None \<Rightarrow> transformLoop rest context processedContent metadata
      | Some hook \<Rightarrow>
          bindE (liftE (hook processedContent context)) (\<lambda>result.
          transformLoop rest context (result_content result)
            (case result_metadata result of
               None \<Rightarrow> metadata
             | Some m \<Rightarrow> metadata ++ m)))"

definition processContent ::
  "SimplSite \<Rightarrow> string \<Rightarrow> string \<Rightarrow> string \<Rightarrow> (string \<times> Metadata) io" where
  "processContent this content type route =
     bindE (liftE (markdownProcessor this content)) (\<lambda>(processedContent, metadata).
     transformLoop (map snd (plugins this)) (pluginContext this type route)
       processedContent metadata)"

subsection \<open>Rendering\<close>

text \<open>The loop over the plugins in \<open>renderContent\<close> that lets them extend the template context.\<close>

fun extendLoop :: "Plugin list \<Rightarrow> TemplateContext \<Rightarrow> TemplateContext io" where
  "extendLoop [] templateContext = returnE templateContext"
| "extendLoop (plugin # rest) templateContext =
     (case extendTemplate plugin of
        None \<Rightarrow> extendLoop rest templateContext
      | Some hook \<Rightarrow> bindE (liftE (hook templateContext)) (extendLoop rest))"

text \<open>The body of the \<open>try\<close> block of \<open>renderContent\<close>.\<close>

definition renderAttempt ::
  "runtime \<Rightarrow> SimplSite \<Rightarrow> string \<Rightarrow> string \<Rightarrow> string \<Rightarrow> rendered io" where
  "renderAttempt rt this path type route =
     bindE (console_log (''Rendering content for path: '' @ path @ '', type: '' @ type @
                         '', route: '' @ route)) (\<lambda>_.
     bindE (getContent rt this path type) (\<lambda>content.
     bindE (console_log ''Raw content retrieved'') (\<lambda>_.
     bindE (processContent this content type route) (\<lambda>(processedContent, metadata).
     bindE (console_log ''Content processed'') (\<lambda>_.
     bindE (extendLoop (map snd (plugins this))
              [''content'' \<mapsto> VStr processedContent, ''metadata'' \<mapsto> VObj metadata,
               ''route'' \<mapsto> VStr route, ''siteTitle'' \<mapsto> VStr (siteTitle this)])
           (\<lambda>templateContext.
     bindE (render rt (templateEngine this) type templateContext) (\<lambda>renderedContent.
     bindE (console_log ''Template rendering complete'') (\<lambda>_.
     returnE \<lparr>rendered_content = renderedContent, rendered_status = 200\<rparr>))))))))"

definition hardFallback :: rendered where
  "hardFallback =
     \<lparr>rendered_content =
        ''<h1>404 - Page Not Found</h1><p>The requested page could not be found.</p>'',
      rendered_status = 404\<rparr>"

text \<open>
  \<open>renderContent\<close>: the \<open>try\<close> block, and the \<open>catch\<close> block with its inner \<open>try\<close>. The
  \<open>catch\<close> block logs the error and then reads \<open>error.name\<close>, outside any \<open>try\<close>: when
  that read throws, the error leaves \<open>renderContent\<close>. The inner block either returns from
  the function (\<open>Some\<close>) or falls through to the default (\<open>None\<close>); whatever the recursive
  call throws is caught there.
\<close>

function renderContent ::
  "runtime \<Rightarrow> SimplSite \<Rightarrow> string \<Rightarrow> string \<Rightarrow> string \<Rightarrow> rendered io" where
  "renderContent rt this path type route =
     catchE (renderAttempt rt this path type route)
       (\<lambda>error.
          bindE (console_error ''Error during content rendering:'' error) (\<lambda>_.
          bindE (liftE (error_name error)) (\<lambda>name.
          bindE (if name = Some ''NotFound'' \<and> path \<noteq> ''404.md''
                 then catchE
                        (bindE (console_log ''Attempting to render 404 page'') (\<lambda>_.
                         bindE (renderContent rt this ''404.md'' (defaultContentType this) ''/404'')
                           (\<lambda>notFound.
                         returnE (Some \<lparr>rendered_content = rendered_content notFound,
                                        rendered_status = 404\<rparr>))))
                        (\<lambda>notFoundError.
                           bindE (console_error ''Error rendering 404 page:'' notFoundError) (\<lambda>_.
                           returnE None))
                 else returnE None) (\<lambda>returned.
          case returned of
            Some r \<Rightarrow> returnE r
          | None \<Rightarrow> returnE hardFallback))))"
  by pat_completeness auto
termination
  by (relation "measure (\<lambda>(rt, this, path, type, route). if path = ''404.md'' then 0 else 1)") auto

subsection \<open>Request handling\<close>

definition serveStaticFile :: "runtime \<Rightarrow> SimplSite \<Rightarrow> string \<Rightarrow> static_file option io" where
  "serveStaticFile rt this path =
     (let fullPath = path_join rt [assetsDir this, path]
      in catchE
           (bindE (liftE (readFile rt fullPath)) (\<lambda>content.
            returnE (Some \<lparr>static_content = content,
                           static_contentType =
                             or_default (media_contentType rt (path_extname rt fullPath))
                               ''application/octet-stream''\<rparr>)))
           (\<lambda>error. if instanceof_NotFound error then returnE None else throwE error))"

text \<open>
  The first statements of \<open>handleRequest\<close>: \<open>path = path.replace(/^\//, '')\<close>, then
  \<open>if (path === '') path = 'index'\<close>.
\<close>

definition normalizePath :: "string \<Rightarrow> string" where
  "normalizePath path =
     (let path = (case path of c # cs \<Rightarrow> if c = CHR ''/'' then cs else path | [] \<Rightarrow> path)
      in if path = [] then ''index'' else path)"

text \<open>\<open>path.endsWith('.md') ? path : path + '.md'\<close>\<close>

definition withMdSuffix :: "string \<Rightarrow> string" where
  "withMdSuffix path = (if suffix ''.md'' path then path else path @ ''.md'')"

definition htmlResponse :: "rendered \<Rightarrow> response" where
  "htmlResponse r =
     \<lparr>response_content = Text (rendered_content r), response_contentType = ''text/html'',
      response_status = rendered_status r\<rparr>"

text \<open>
  The loop \<open>for (const source of this.contentSources)\<close> of \<open>handleRequest\<close>, which returns
  from the function at the first match, followed by the statements after the loop.
\<close>

fun routeLoop ::
  "runtime \<Rightarrow> SimplSite \<Rightarrow> string \<Rightarrow> string \<Rightarrow> ContentSource list \<Rightarrow> response io" where
  "routeLoop rt this originalPath path [] =
     bindE (renderContent rt this path (defaultContentType this) (''/'' @ originalPath)) (\<lambda>r.
     returnE (htmlResponse r))"
| "routeLoop rt this originalPath path (source # rest) =
     (if prefix (source_route source) originalPath
      then (let contentPath = drop (length (source_route source)) path
            in bindE (renderContent rt this contentPath (source_type source) (''/'' @ originalPath))
                 (\<lambda>r. returnE (htmlResponse r)))
      else routeLoop rt this originalPath path rest)"

definition handleRequest :: "runtime \<Rightarrow> SimplSite \<Rightarrow> string \<Rightarrow> response io" where
  "handleRequest rt this path =
     bindE (console_log (''Handling request for path: '' @ path)) (\<lambda>_.
     (let path = normalizePath path
      in bindE (serveStaticFile rt this path) (\<lambda>staticFile.
         case staticFile of
           Some file \<Rightarrow>
             bindE (console_log (''Serving static file: '' @ path)) (\<lambda>_.
             returnE \<lparr>response_content = Bytes (static_content file),
                      response_contentType = static_contentType file,
                      response_status = 200\<rparr>)
         | None \<Rightarrow>
             bindE (console_log (''Rendering content for path: '' @ path)) (\<lambda>_.
             (let originalPath = path;
                  path = withMdSuffix path
              in routeLoop rt this originalPath path (contentSources this))))))"

section \<open>Collaborators that throw objects\<close>

text \<open>
  A function never throws \<open>null\<close> or \<open>undefined\<close>. For a site in a state this is asked of
  everything a render calls: the reads of the file system, the markdown processor, the
  hooks of the registered plugins, the templates the engine compiles and the templates
  its cache holds.
\<close>

definition throws_objects :: "('a \<Rightarrow> thrown + 'b) \<Rightarrow> bool" where
  "throws_objects f \<longleftrightarrow> (\<forall>x e. f x = Inl e \<longrightarrow> \<not> nullish e)"

definition collaborators_throw_objects :: "runtime \<Rightarrow> SimplSite \<Rightarrow> state \<Rightarrow> bool" where
  "collaborators_throw_objects rt this s \<longleftrightarrow>
     throws_objects (readTextFile rt) \<and>
     throws_objects (fs_exists rt) \<and>
     throws_objects (markdownProcessor this) \<and>
     (\<forall>plugin \<in> set (map snd (plugins this)).
        (\<forall>hook content. transform plugin = Some hook \<longrightarrow> throws_objects (hook content)) \<and>
        (\<forall>hook. extendTemplate plugin = Some hook \<longrightarrow> throws_objects hook)) \<and>
     (\<forall>templateContent.
        throws_objects (handlebars_compile (templateEngine this) templateContent)) \<and>
     (\<forall>p template. compiledTemplates s p = Some template \<longrightarrow> throws_objects template)"

section \<open>The plugin chain as the specification describes it\<close>

text \<open>
  Registration order: the plugins that load, in the order of their configurations, each
  under its configured name.
\<close>

fun registrationOrder ::
  "(string \<Rightarrow> thrown + PluginClass) \<Rightarrow> PluginConfig list \<Rightarrow> (string \<times> Plugin) list" where
  "registrationOrder getPluginClass [] = []"
| "registrationOrder getPluginClass (pluginConfig # rest) =
     (case (case getPluginClass (plugin_name pluginConfig) of
              Inl error \<Rightarrow> Inl error
            | Inr PluginClass \<Rightarrow> PluginClass (plugin_options pluginConfig)) of
        Inr plugin \<Rightarrow>
          (plugin_name pluginConfig, plugin) # registrationOrder getPluginClass rest
      | Inl error \<Rightarrow> registrationOrder getPluginClass rest)"

text \<open>
  One step of the transform chain: a failure so far stays; a plugin without a transform
  hook changes nothing; a hook that fails fails the chain; otherwise the content is
  replaced by the hook's content, and metadata the hook returns are merged over the
  accumulated ones, later writes winning per key.
\<close>

definition transformStep ::
  "PluginContext \<Rightarrow> thrown + string \<times> Metadata \<Rightarrow> Plugin \<Rightarrow> thrown + string \<times> Metadata" where
  "transformStep context acc plugin =
     (case acc of
        Inl e \<Rightarrow> Inl e
      | Inr (content, metadata) \<Rightarrow>
          (case transform plugin of
             None \<Rightarrow> Inr (content, metadata)
           | Some hook \<Rightarrow>
               (case hook content context of
                  Inl e \<Rightarrow> Inl e
                | Inr result \<Rightarrow>
                    Inr (result_content result,
                         case result_metadata result of
                           None \<Rightarrow> metadata
                         | Some m \<Rightarrow> metadata ++ m))))"

section \<open>Example sites\<close>

definition demo_join :: "string list \<Rightarrow> string" where
  "demo_join parts =
     foldr (\<lambda>p rest. if rest = [] then p
                      else (if p \<noteq> [] \<and> last p = CHR ''/'' then butlast p else p) @ CHR ''/'' # rest)
       parts []"

definition demo_runtime :: "(string \<times> string) list \<Rightarrow> string list \<Rightarrow> runtime" where
  "demo_runtime files dirs =
     \<lparr>readTextFile = (\<lambda>p. if p \<in> set dirs then Inl (DenoError ''IsADirectory'' p)
                         else case map_of files p of
                                Some c \<Rightarrow> Inr c
                              | None \<Rightarrow> Inl (DenoError ''NotFound'' p)),
      readFile = (\<lambda>p. if p \<in> set dirs then Inl (DenoError ''IsADirectory'' p)
                     else case map_of files p of
                            Some c \<Rightarrow> Inr (map of_char c)
                          | None \<Rightarrow> Inl (DenoError ''NotFound'' p)),
      fs_exists = (\<lambda>p. Inr (p \<in> set dirs \<or> map_of files p \<noteq> None)),
      path_join = demo_join,
      path_extname = (\<lambda>p. dropWhile (\<lambda>c. c \<noteq> CHR ''.'') p),
      media_contentType = (\<lambda>e. if e = ''.css'' then Some ''text/css; charset=UTF-8'' else None)\<rparr>"

definition demo_compile :: "string \<Rightarrow> Template" where
  "demo_compile src = (\<lambda>context.
     Inr (src @ (case context ''body'' of
                   Some (VStr b) \<Rightarrow> b
                 | _ \<Rightarrow> (case context ''content'' of Some (VStr c) \<Rightarrow> c | _ \<Rightarrow> []))))"

definition demo_site :: "(string \<times> Plugin) list \<Rightarrow> SimplSite" where
  "demo_site ps =
     \<lparr>plugins = ps,
      contentSources =
        [\<lparr>source_type = ''post'', source_path = ''posts'', source_route = ''blog/''\<rparr>,
         \<lparr>source_type = ''page'', source_path = ''pages'', source_route = ''p/''\<rparr>,
         \<lparr>source_type = ''draft'', source_path = ''drafts'', source_route = ''blog/drafts/''\<rparr>],
      defaultContentType = ''page'',
      templateDir = ''t'',
      customPluginsDir = None,
      assetsDir = ''assets'',
      markdownProcessor = (\<lambda>c. Inr (c, Map.empty)),
      templateEngine = TemplateEngine_new ''t'' demo_compile,
      siteUrl = ''http://localhost:8000'',
      siteTitle = ''My Simpl Site''\<rparr>"

definition state0 :: state where
  "state0 = \<lparr>compiledTemplates = Map.empty, console = []\<rparr>"

definition files_404 :: "(string \<times> string) list" where
  "files_404 = [(''pages/404.md'', ''gone''), (''t/page.hbs'', ''P:'')]"

text \<open>A plugin whose transform hook reads a file that is missing whenever it runs on a post.\<close>

definition include_plugin :: Plugin where
  "include_plugin =
     \<lparr>transform = Some (\<lambda>content context.
        if ctx_contentType context = ''post''
        then Inl (DenoError ''NotFound'' ''include.md'')
        else Inr \<lparr>result_content = content, result_metadata = None\<rparr>),
      extendTemplate = None\<rparr>"

definition files_post :: "(string \<times> string) list" where
  "files_post = [(''posts/x.md'', ''hello''), (''pages/404.md'', ''gone''), (''t/page.hbs'', ''P:'')]"

definition files_site :: "(string \<times> string) list" where
  "files_site =
     [(''posts/x.md'', ''hello''), (''pages/about.md'', ''us''), (''t/post.hbs'', ''B:''),
      (''t/page.hbs'', ''P:''), (''assets/site.css'', ''a{}'')]"

text \<open>Two plugins that both write the metadata key \<open>x\<close>, and one without hooks.\<close>

definition plugin_a :: Plugin where
  "plugin_a =
     \<lparr>transform = Some (\<lambda>content context.
        Inr \<lparr>result_content = content @ ''a'', result_metadata = Some [''x'' \<mapsto> VStr ''A'']\<rparr>),
      extendTemplate = None\<rparr>"

definition plugin_b :: Plugin where
  "plugin_b =
     \<lparr>transform = Some (\<lambda>content context.
        Inr \<lparr>result_content = content @ ''b'', result_metadata = Some [''x'' \<mapsto> VStr ''B'']\<rparr>),
      extendTemplate = None\<rparr>"

definition plugin_idle :: Plugin where
  "plugin_idle = \<lparr>transform = None, extendTemplate = None\<rparr>"

definition files_layout :: "(string \<times> string) list" where
  "files_layout = [(''t/page.hbs'', ''P:''), (''t/layouts/base.hbs'', ''L:'')]"

text \<open>A registry with one plugin class, \<open>tag\<close>, whose plugins append their option to the content.\<close>

definition tag_plugin :: "jsval \<Rightarrow> Plugin" where
  "tag_plugin opt =
     \<lparr>transform = Some (\<lambda>content context.
        Inr \<lparr>result_content = content @ (case opt of VStr t \<Rightarrow> t | _ \<Rightarrow> []),
             result_metadata = None\<rparr>),
      extendTemplate = None\<rparr>"

definition demo_registry :: "string \<Rightarrow> thrown + PluginClass" where
  "demo_registry n =
     (if n = ''tag'' then Inr (\<lambda>opt. Inr (tag_plugin opt))
      else Inl (JsError ''Error'' (''Plugin not found: '' @ n)))"

text \<open>A plugin whose transform hook throws \<open>null\<close> whenever it runs on the given content type.\<close>

definition null_plugin :: "string \<Rightarrow> Plugin" where
  "null_plugin t =
     \<lparr>transform = Some (\<lambda>content context.
        if ctx_contentType context = t
        then Inl ThrownNull
        else Inr \<lparr>result_content = content, result_metadata = None\<rparr>),
      extendTemplate = None\<rparr>"

text \<open>
  A registry with the plugin classes \<open>a\<close> and \<open>b\<close>: their plugins append the option to the
  content and set the metadata key \<open>x\<close> to it.
\<close>

definition key_plugin :: "jsval \<Rightarrow> Plugin" where
  "key_plugin opt =
     \<lparr>transform = Some (\<lambda>content context.
        Inr \<lparr>result_content = content @ (case opt of VStr t \<Rightarrow> t | _ \<Rightarrow> []),
             result_metadata = Some [''x'' \<mapsto> opt]\<rparr>),
      extendTemplate = None\<rparr>"

definition key_registry :: "string \<Rightarrow> thrown + PluginClass" where
  "key_registry n =
     (if n = ''a'' \<or> n = ''b'' then Inr (\<lambda>opt. Inr (key_plugin opt))
      else if n = ''tag'' then Inr (\<lambda>opt. Inr (tag_plugin opt))
      else Inl (JsError ''Error'' (''Plugin not found: '' @ n)))"

definition demo_config :: "PluginConfig list \<Rightarrow> WebsiteConfig" where
  "demo_config cfgs =
     \<lparr>cfg_contentSources =
        [\<lparr>source_type = ''post'', source_path = ''posts'', source_route = ''blog/''\<rparr>],
      cfg_defaultContentType = ''post'',
      cfg_templateDir = ''t'',
      cfg_customPluginsDir = None,
      cfg_assetsDir = None,
      cfg_siteUrl = None,
      cfg_siteTitle = None,
      cfg_plugins = cfgs\<rparr>"

definition demo_markdown :: "string \<Rightarrow> thrown + (string \<times> Metadata)" where
  "demo_markdown c = Inr (c, Map.empty)"

section \<open>Basic facts\<close>

declare renderContent.simps [simp del]

named_theorems io_simps

lemma bindE_Inr [io_simps]: "m s = (Inr x, s') \<Longrightarrow> bindE m f s = f x s'"
  by (simp add: bindE_def)

lemma bindE_Inl [io_simps]: "m s = (Inl e, s') \<Longrightarrow> bindE m f s = (Inl e, s')"
  by (simp add: bindE_def)

lemma catchE_Inr [io_simps]: "m s = (Inr x, s') \<Longrightarrow> catchE m h s = (Inr x, s')"
  by (simp add: catchE_def)

lemma catchE_Inl [io_simps]: "m s = (Inl e, s') \<Longrightarrow> catchE m h s = h e s'"
  by (simp add: catchE_def)

lemma returnE_apply [io_simps]: "returnE x s = (Inr x, s)"
  by (simp add: returnE_def)

lemma throwE_apply [io_simps]: "throwE e s = (Inl e, s)"
  by (simp add: throwE_def)

lemma liftE_apply [io_simps]: "liftE r s = (r, s)"
  by (simp add: liftE_def)

lemma console_log_apply [io_simps]:
  "console_log msg s = (Inr (), s\<lparr>console := console s @ [ConsoleLog msg]\<rparr>)"
  by (simp add: console_log_def)

lemma console_error_apply [io_simps]:
  "console_error msg e s = (Inr (), s\<lparr>console := console s @ [ConsoleError msg e]\<rparr>)"
  by (simp add: console_error_def)

lemma renderContent_success:
  "renderAttempt rt this path type route s = (Inr r, s') \<Longrightarrow>
   renderContent rt this path type route s = (Inr r, s')"
  by (subst renderContent.simps) (simp add: io_simps)

lemma not_nullish_name: "\<not> nullish e \<Longrightarrow> \<exists>n. error_name e = Inr n"
  by (cases e) simp_all

lemma nullish_name: "nullish e \<Longrightarrow> \<exists>typeError. error_name e = Inl typeError"
  by (cases e) simp_all

lemma renderContent_nullish:
  assumes "renderAttempt rt this path type route s = (Inl e, s')"
      and "error_name e = Inl typeError"
  shows "renderContent rt this path type route s =
           (Inl typeError,
            s'\<lparr>console := console s' @ [ConsoleError ''Error during content rendering:'' e]\<rparr>)"
  using assms by (subst renderContent.simps) (simp add: io_simps)

lemma renderContent_hard:
  assumes "renderAttempt rt this path type route s = (Inl e, s')"
      and "\<not> nullish e"
      and "\<not> (error_name e = Inr (Some ''NotFound'') \<and> path \<noteq> ''404.md'')"
  shows "renderContent rt this path type route s =
           (Inr hardFallback,
            s'\<lparr>console := console s' @ [ConsoleError ''Error during content rendering:'' e]\<rparr>)"
proof -
  from assms(2) obtain n where "error_name e = Inr n"
    using not_nullish_name by blast
  with assms(1,3) show ?thesis
    by (subst renderContent.simps) (auto simp add: io_simps)
qed

lemma renderContent_retry:
  assumes "renderAttempt rt this path type route s = (Inl e, s1)"
      and "error_name e = Inr (Some ''NotFound'')" and "path \<noteq> ''404.md''"
      and "renderContent rt this ''404.md'' (defaultContentType this) ''/404''
             (s1\<lparr>console := console s1 @ [ConsoleError ''Error during content rendering:'' e,
                                            ConsoleLog ''Attempting to render 404 page'']\<rparr>)
           = (Inr notFound, s2)"
  shows "renderContent rt this path type route s =
           (Inr \<lparr>rendered_content = rendered_content notFound, rendered_status = 404\<rparr>, s2)"
  using assms by (subst renderContent.simps) (simp add: io_simps)

lemma renderContent_retry_throws:
  assumes "renderAttempt rt this path type route s = (Inl e, s1)"
      and "error_name e = Inr (Some ''NotFound'')" and "path \<noteq> ''404.md''"
      and "renderContent rt this ''404.md'' (defaultContentType this) ''/404''
             (s1\<lparr>console := console s1 @ [ConsoleError ''Error during content rendering:'' e,
                                            ConsoleLog ''Attempting to render 404 page'']\<rparr>)
           = (Inl notFoundError, s2)"
  shows "renderContent rt this path type route s =
           (Inr hardFallback,
            s2\<lparr>console := console s2 @
                 [ConsoleError ''Error rendering 404 page:'' notFoundError]\<rparr>)"
  using assms by (subst renderContent.simps) (simp add: io_simps)

lemmas io_defs = bindE_def catchE_def returnE_def throwE_def liftE_def
  console_log_def console_error_def

lemmas render_defs = renderAttempt_def getContent_def processContent_def pluginContext_def
  render_def compiledTemplate_def templatePath_def layoutPath_def

lemmas demo_defs = demo_join_def demo_runtime_def demo_compile_def demo_site_def state0_def
  TemplateEngine_new_def files_404_def

lemma transformLoop_state: "snd (transformLoop ps context c md s) = s"
proof (induction ps arbitrary: c md)
  case Nil
  show ?case by (simp add: io_defs)
next
  case (Cons p ps)
  show ?case
  proof (cases "transform p")
    case None
    with Cons show ?thesis by simp
  next
    case (Some hook)
    show ?thesis
    proof (cases "hook c context")
      case (Inl e)
      with Some show ?thesis by (simp add: io_defs)
    next
      case (Inr result)
      with Some Cons show ?thesis by (simp add: io_defs)
    qed
  qed
qed

lemma processContent_state: "snd (processContent this content type route s) = s"
proof (cases "markdownProcessor this content")
  case (Inl e)
  then show ?thesis by (simp add: processContent_def io_defs)
next
  case (Inr parsed)
  then show ?thesis
    by (cases parsed) (simp add: processContent_def io_defs transformLoop_state)
qed

lemma extendLoop_state: "snd (extendLoop ps templateContext s) = s"
proof (induction ps arbitrary: templateContext)
  case Nil
  show ?case by (simp add: io_defs)
next
  case (Cons p ps)
  show ?case
  proof (cases "extendTemplate p")
    case None
    with Cons show ?thesis by simp
  next
    case (Some hook)
    show ?thesis
    proof (cases "hook templateContext")
      case (Inl e)
      with Some show ?thesis by (simp add: io_defs)
    next
      case (Inr next_context)
      with Some Cons show ?thesis by (simp add: io_defs)
    qed
  qed
qed

lemma render_status:
  "renderAttempt rt this path type route s = (Inr r, s') \<Longrightarrow> rendered_status r = 200"
  by (auto simp add: renderAttempt_def bindE_def returnE_def console_log_def
        split: prod.splits sum.splits)

lemma renderContent_status:
  assumes "renderContent rt this path type route s = (Inr r, s')"
  shows "rendered_status r = 200 \<or> rendered_status r = 404"
proof (cases "renderAttempt rt this path type route s")
  case (Pair res s1)
  show ?thesis
  proof (cases res)
    case (Inr r1)
    with Pair assms show ?thesis
      using renderContent_success [of rt this path type route s r1 s1]
      by (simp add: render_status)
  next
    case (Inl e)
    show ?thesis
    proof (cases "nullish e")
      case True
      then obtain typeError where "error_name e = Inl typeError"
        using nullish_name by blast
      with Inl Pair assms show ?thesis
        using renderContent_nullish [of rt this path type route s e s1 typeError] by simp
    next
      case False
      show ?thesis
      proof (cases "error_name e = Inr (Some ''NotFound'') \<and> path \<noteq> ''404.md''")
        case guard: False
        with False Inl Pair assms show ?thesis
          using renderContent_hard [of rt this path type route s e s1]
          by (auto simp add: hardFallback_def)
      next
        case guard: True
        let ?s = "s1\<lparr>console := console s1 @ [ConsoleError ''Error during content rendering:'' e,
                                              ConsoleLog ''Attempting to render 404 page'']\<rparr>"
        obtain res2 s2 where retry:
          "renderContent rt this ''404.md'' (defaultContentType this) ''/404'' ?s = (res2, s2)"
          by (cases "renderContent rt this ''404.md'' (defaultContentType this) ''/404'' ?s")
        show ?thesis
        proof (cases res2)
          case (Inr notFound)
          with retry guard Inl Pair assms show ?thesis
            using renderContent_retry [of rt this path type route s e s1 notFound s2] by auto
        next
          case inner: (Inl notFoundError)
          with retry guard Inl Pair assms show ?thesis
            using renderContent_retry_throws [of rt this path type route s e s1 notFoundError s2]
            by (auto simp add: hardFallback_def)
        qed
      qed
    qed
  qed
qed

lemma renderContent_returns:
  assumes "\<forall>e s1. renderAttempt rt this path type route s = (Inl e, s1) \<longrightarrow> \<not> nullish e"
  shows "\<exists>r s'. renderContent rt this path type route s = (Inr r, s')"
proof (cases "renderAttempt rt this path type route s")
  case (Pair res s1)
  show ?thesis
  proof (cases res)
    case (Inr r)
    with Pair show ?thesis by (simp add: renderContent_success)
  next
    case (Inl e)
    with Pair assms have object: "\<not> nullish e" by simp
    show ?thesis
    proof (cases "error_name e = Inr (Some ''NotFound'') \<and> path \<noteq> ''404.md''")
      case False
      with object Inl Pair show ?thesis
        using renderContent_hard [of rt this path type route s e s1] by simp
    next
      case True
      let ?s = "s1\<lparr>console := console s1 @ [ConsoleError ''Error during content rendering:'' e,
                                            ConsoleLog ''Attempting to render 404 page'']\<rparr>"
      obtain res2 s2 where retry:
        "renderContent rt this ''404.md'' (defaultContentType this) ''/404'' ?s = (res2, s2)"
        by (cases "renderContent rt this ''404.md'' (defaultContentType this) ''/404'' ?s")
      show ?thesis
      proof (cases res2)
        case (Inr notFound)
        with retry True Inl Pair show ?thesis
          using renderContent_retry [of rt this path type route s e s1 notFound s2] by simp
      next
        case inner: (Inl notFoundError)
        with retry True Inl Pair show ?thesis
          using renderContent_retry_throws [of rt this path type route s e s1 notFoundError s2]
          by simp
      qed
    qed
  qed
qed

lemma transformLoop_objects:
  assumes "\<forall>plugin \<in> set ps. \<forall>hook content.
             transform plugin = Some hook \<longrightarrow> throws_objects (hook content)"
      and "transformLoop ps context c md s = (Inl e, s')"
  shows "\<not> nullish e"
  using assms
proof (induction ps arbitrary: c md)
  case Nil
  then show ?case by (simp add: io_defs)
next
  case (Cons p ps)
  show ?case
  proof (cases "transform p")
    case None
    with Cons show ?thesis by simp
  next
    case (Some hook)
    show ?thesis
    proof (cases "hook c context")
      case (Inl e1)
      with Some Cons.prems(2) have "e = e1" by (simp add: io_defs)
      moreover from Some Cons.prems(1) have "throws_objects (hook c)" by simp
      ultimately show ?thesis using Inl by (simp add: throws_objects_def)
    next
      case (Inr result)
      with Some Cons.prems(2) have
        "transformLoop ps context (result_content result)
           (case result_metadata result of None \<Rightarrow> md | Some m \<Rightarrow> md ++ m) s = (Inl e, s')"
        by (simp add: io_defs)
      with Cons.IH Cons.prems(1) show ?thesis by simp
    qed
  qed
qed

lemma extendLoop_objects:
  assumes "\<forall>plugin \<in> set ps. \<forall>hook. extendTemplate plugin = Some hook \<longrightarrow> throws_objects hook"
      and "extendLoop ps templateContext s = (Inl e, s')"
  shows "\<not> nullish e"
  using assms
proof (induction ps arbitrary: templateContext)
  case Nil
  then show ?case by (simp add: io_defs)
next
  case (Cons p ps)
  show ?case
  proof (cases "extendTemplate p")
    case None
    with Cons show ?thesis by simp
  next
    case (Some hook)
    show ?thesis
    proof (cases "hook templateContext")
      case (Inl e1)
      with Some Cons.prems(2) have "e = e1" by (simp add: io_defs)
      moreover from Some Cons.prems(1) have "throws_objects hook" by simp
      ultimately show ?thesis using Inl by (simp add: throws_objects_def)
    next
      case (Inr next_context)
      with Some Cons.prems(2) have "extendLoop ps next_context s = (Inl e, s')"
        by (simp add: io_defs)
      with Cons.IH Cons.prems(1) show ?thesis by simp
    qed
  qed
qed

lemma processContent_objects:
  assumes "collaborators_throw_objects rt this s0"
      and "processContent this content type route s = (Inl e, s')"
  shows "\<not> nullish e"
proof (cases "markdownProcessor this content")
  case (Inl e1)
  with assms(2) have "e = e1" by (simp add: processContent_def io_defs)
  moreover from assms(1) have "throws_objects (markdownProcessor this)"
    by (simp add: collaborators_throw_objects_def)
  ultimately show ?thesis using Inl by (simp add: throws_objects_def)
next
  case (Inr parsed)
  obtain c md where "parsed = (c, md)" by (cases parsed)
  with Inr assms(2) have
    "transformLoop (map snd (plugins this)) (pluginContext this type route) c md s = (Inl e, s')"
    by (simp add: processContent_def io_defs)
  moreover from assms(1) have
    "\<forall>plugin \<in> set (map snd (plugins this)). \<forall>hook content.
       transform plugin = Some hook \<longrightarrow> throws_objects (hook content)"
    by (simp add: collaborators_throw_objects_def)
  ultimately show ?thesis by (rule transformLoop_objects [rotated])
qed

lemma getContent_objects:
  assumes "throws_objects (readTextFile rt)"
      and "getContent rt this path type s = (Inl e, s')"
  shows "\<not> nullish e"
  using assms
  by (auto simp add: getContent_def io_defs throws_objects_def split: option.splits)

lemma getContent_state: "snd (getContent rt this path type s) = s"
  by (simp add: getContent_def io_defs split: option.splits)

lemma render_objects:
  assumes "throws_objects (readTextFile rt)" and "throws_objects (fs_exists rt)"
      and "\<forall>templateContent. throws_objects (handlebars_compile engine templateContent)"
      and "\<forall>p template. compiledTemplates s p = Some template \<longrightarrow> throws_objects template"
      and "render rt engine templateName context s = (Inl e, s')"
  shows "\<not> nullish e"
  using assms
  by (auto simp add: render_def io_defs compiledTemplate_def Let_def throws_objects_def
        split: sum.splits prod.splits if_splits option.splits)

lemma renderAttempt_objects:
  assumes "collaborators_throw_objects rt this s"
      and "renderAttempt rt this path type route s = (Inl e, s')"
  shows "\<not> nullish e"
proof -
  let ?s0 = "s\<lparr>console := console s @
                [ConsoleLog (''Rendering content for path: '' @ path @ '', type: '' @ type @
                             '', route: '' @ route)]\<rparr>"
  from assms(1) have fs: "throws_objects (readTextFile rt)" "throws_objects (fs_exists rt)"
    and compile: "\<forall>templateContent.
                    throws_objects (handlebars_compile (templateEngine this) templateContent)"
    and cache: "\<forall>p template. compiledTemplates s p = Some template \<longrightarrow> throws_objects template"
    and hooks: "\<forall>plugin \<in> set (map snd (plugins this)). \<forall>hook.
                  extendTemplate plugin = Some hook \<longrightarrow> throws_objects hook"
    by (simp_all add: collaborators_throw_objects_def)
  obtain res0 where loaded: "getContent rt this path type ?s0 = (res0, ?s0)"
    using getContent_state [of rt this path type ?s0]
    by (cases "getContent rt this path type ?s0") simp
  show ?thesis
  proof (cases res0)
    case (Inl e0)
    with loaded assms(2) have "e = e0" by (simp add: renderAttempt_def io_defs)
    with Inl loaded fs(1) show ?thesis using getContent_objects by blast
  next
    case (Inr content)
    let ?s1 = "?s0\<lparr>console := console ?s0 @ [ConsoleLog ''Raw content retrieved'']\<rparr>"
    obtain res1 where processed: "processContent this content type route ?s1 = (res1, ?s1)"
      using processContent_state [of this content type route ?s1]
      by (cases "processContent this content type route ?s1") simp
    show ?thesis
    proof (cases res1)
      case (Inl e1)
      with processed Inr loaded assms(2) have "e = e1"
        by (simp add: renderAttempt_def io_defs)
      with Inl processed assms(1) show ?thesis using processContent_objects by blast
    next
      case parsed: (Inr pair)
      obtain processedContent metadata where pair: "pair = (processedContent, metadata)"
        by (cases pair)
      let ?s2 = "?s1\<lparr>console := console ?s1 @ [ConsoleLog ''Content processed'']\<rparr>"
      let ?ctx = "[''content'' \<mapsto> VStr processedContent, ''metadata'' \<mapsto> VObj metadata,
                   ''route'' \<mapsto> VStr route, ''siteTitle'' \<mapsto> VStr (siteTitle this)]"
      obtain res2 where extended: "extendLoop (map snd (plugins this)) ?ctx ?s2 = (res2, ?s2)"
        using extendLoop_state [of "map snd (plugins this)" ?ctx ?s2]
        by (cases "extendLoop (map snd (plugins this)) ?ctx ?s2") simp
      show ?thesis
      proof (cases res2)
        case (Inl e2)
        with extended parsed pair processed Inr loaded assms(2) have "e = e2"
          by (simp add: renderAttempt_def io_defs)
        with Inl extended hooks show ?thesis using extendLoop_objects by blast
      next
        case templated: (Inr templateContext)
        obtain res3 s3 where
          rendered: "render rt (templateEngine this) type templateContext ?s2 = (res3, s3)"
          by (cases "render rt (templateEngine this) type templateContext ?s2")
        show ?thesis
        proof (cases res3)
          case (Inl e3)
          with rendered templated extended parsed pair processed Inr loaded assms(2)
          have "e = e3" by (simp add: renderAttempt_def io_defs)
          moreover from cache have
            "\<forall>p template. compiledTemplates ?s2 p = Some template \<longrightarrow> throws_objects template"
            by simp
          ultimately show ?thesis
            using render_objects [OF fs compile _ rendered [unfolded Inl]] by simp
        next
          case (Inr renderedContent)
          with rendered templated extended parsed pair processed \<open>res0 = Inr content\<close> loaded
            assms(2)
          show ?thesis by (simp add: renderAttempt_def io_defs)
        qed
      qed
    qed
  qed
qed

lemma collaborators_console:
  "collaborators_throw_objects rt this (s\<lparr>console := c\<rparr>) = collaborators_throw_objects rt this s"
  by (simp add: collaborators_throw_objects_def)

lemma serveStaticFile_found:
  "readFile rt (path_join rt [assetsDir this, p]) = Inr bytes \<Longrightarrow>
   serveStaticFile rt this p s =
     (Inr (Some \<lparr>static_content = bytes,
                 static_contentType =
                   or_default (media_contentType rt (path_extname rt (path_join rt [assetsDir this, p])))
                     ''application/octet-stream''\<rparr>), s)"
  by (simp add: serveStaticFile_def io_defs)

lemma serveStaticFile_absent:
  "readFile rt (path_join rt [assetsDir this, p]) = Inl e \<Longrightarrow> instanceof_NotFound e \<Longrightarrow>
   serveStaticFile rt this p s = (Inr None, s)"
  by (simp add: serveStaticFile_def io_defs)

lemma serveStaticFile_rethrow:
  "readFile rt (path_join rt [assetsDir this, p]) = Inl e \<Longrightarrow> \<not> instanceof_NotFound e \<Longrightarrow>
   serveStaticFile rt this p s = (Inl e, s)"
  by (simp add: serveStaticFile_def io_defs)

lemma handleRequest_static:
  "readFile rt (path_join rt [assetsDir this, normalizePath path]) = Inr bytes \<Longrightarrow>
   handleRequest rt this path s =
     (Inr \<lparr>response_content = Bytes bytes,
           response_contentType =
             or_default (media_contentType rt
                 (path_extname rt (path_join rt [assetsDir this, normalizePath path])))
               ''application/octet-stream'',
           response_status = 200\<rparr>,
      s\<lparr>console := console s @
           [ConsoleLog (''Handling request for path: '' @ path),
            ConsoleLog (''Serving static file: '' @ normalizePath path)]\<rparr>)"
  by (simp add: handleRequest_def serveStaticFile_def io_defs Let_def)

lemma handleRequest_rethrow:
  "readFile rt (path_join rt [assetsDir this, normalizePath path]) = Inl e \<Longrightarrow>
   \<not> instanceof_NotFound e \<Longrightarrow>
   handleRequest rt this path s =
     (Inl e, s\<lparr>console := console s @ [ConsoleLog (''Handling request for path: '' @ path)]\<rparr>)"
  by (simp add: handleRequest_def serveStaticFile_def io_defs Let_def)

lemma handleRequest_content:
  "readFile rt (path_join rt [assetsDir this, normalizePath path]) = Inl e \<Longrightarrow>
   instanceof_NotFound e \<Longrightarrow>
   handleRequest rt this path s =
     routeLoop rt this (normalizePath path) (withMdSuffix (normalizePath path)) (contentSources this)
       (s\<lparr>console := console s @
            [ConsoleLog (''Handling request for path: '' @ path),
             ConsoleLog (''Rendering content for path: '' @ normalizePath path)]\<rparr>)"
  by (simp add: handleRequest_def serveStaticFile_def io_defs Let_def)

lemma routeLoop_none:
  "\<forall>x \<in> set sources. \<not> prefix (source_route x) originalPath \<Longrightarrow>
   routeLoop rt this originalPath p sources =
     bindE (renderContent rt this p (defaultContentType this) (''/'' @ originalPath))
       (\<lambda>r. returnE (htmlResponse r))"
  by (induction sources) simp_all

lemma routeLoop_first:
  "\<forall>x \<in> set pre. \<not> prefix (source_route x) originalPath \<Longrightarrow>
   prefix (source_route source) originalPath \<Longrightarrow>
   routeLoop rt this originalPath p (pre @ source # post) =
     bindE (renderContent rt this (drop (length (source_route source)) p) (source_type source)
              (''/'' @ originalPath))
       (\<lambda>r. returnE (htmlResponse r))"
  by (induction pre) simp_all

lemma rendered_response:
  assumes "collaborators_throw_objects rt this s"
  shows "\<exists>resp s'. bindE (renderContent rt this p type route) (\<lambda>r. returnE (htmlResponse r)) s =
                (Inr resp, s') \<and>
              (response_status resp = 200 \<or> response_status resp = 404)"
proof -
  from assms have "\<forall>e s1. renderAttempt rt this p type route s = (Inl e, s1) \<longrightarrow> \<not> nullish e"
    using renderAttempt_objects by blast
  then obtain r s' where returned: "renderContent rt this p type route s = (Inr r, s')"
    using renderContent_returns by blast
  then have "rendered_status r = 200 \<or> rendered_status r = 404"
    by (rule renderContent_status)
  with returned show ?thesis by (simp add: io_defs htmlResponse_def)
qed

lemma routeLoop_returns:
  assumes "collaborators_throw_objects rt this s"
  shows "\<exists>resp s'. routeLoop rt this originalPath p sources s = (Inr resp, s') \<and>
              (response_status resp = 200 \<or> response_status resp = 404)"
proof (induction sources)
  case Nil
  show ?case using rendered_response [OF assms] by simp
next
  case (Cons source rest)
  show ?case
  proof (cases "prefix (source_route source) originalPath")
    case True
    then show ?thesis using rendered_response [OF assms] by simp
  next
    case False
    with Cons show ?thesis by simp
  qed
qed

lemma prefix_withMdSuffix: "prefix r p \<Longrightarrow> prefix r (withMdSuffix p)"
  by (simp add: withMdSuffix_def)

lemma strip_prefix: "prefix r p \<Longrightarrow> r @ drop (length r) p = p"
  by (auto simp add: prefix_def)

lemma transformLoop_skip:
  "\<forall>p \<in> set ps. transform p = None \<Longrightarrow>
   transformLoop (ps @ qs) context c md = transformLoop qs context c md"
  by (induction ps) simp_all

lemma transformLoop_filter:
  "transformLoop (filter (\<lambda>p. transform p \<noteq> None) ps) context c md =
   transformLoop ps context c md"
  by (induction ps arbitrary: c md) (auto split: option.splits)

lemma transformLoop_append:
  "transformLoop (ps @ qs) context c md =
   bindE (transformLoop ps context c md) (\<lambda>(c', md'). transformLoop qs context c' md')"
proof (induction ps arbitrary: c md)
  case Nil
  show ?case by (simp add: io_defs)
next
  case (Cons p ps)
  show ?case
  proof (cases "transform p")
    case None
    with Cons show ?thesis by simp
  next
    case (Some hook)
    show ?thesis
    proof (cases "hook c context")
      case (Inl e)
      with Some show ?thesis by (simp add: io_defs)
    next
      case (Inr result)
      with Some Cons show ?thesis by (simp add: io_defs)
    qed
  qed
qed

lemma Map_set_keys:
  "map fst (Map_set k v ps) = (if k \<in> set (map fst ps) then map fst ps else map fst ps @ [k])"
  by (induction ps) auto

lemma Map_set_distinct: "distinct (map fst ps) \<Longrightarrow> distinct (map fst (Map_set k v ps))"
  by (simp add: Map_set_keys)

lemma map_of_Map_set: "map_of (Map_set k v ps) = (map_of ps)(k \<mapsto> v)"
  by (induction ps) (auto simp add: fun_eq_iff)

lemma initializePlugins_append:
  "initializePlugins g (xs @ ys) st = initializePlugins g ys (initializePlugins g xs st)"
proof (induction xs arbitrary: st)
  case Nil
  show ?case by simp
next
  case (Cons x xs)
  show ?case by (cases st) (simp add: Cons)
qed

lemma initializePlugins_distinct:
  "distinct (map fst ps) \<Longrightarrow> distinct (map fst (fst (initializePlugins g cfgs (ps, con))))"
proof (induction cfgs arbitrary: ps con)
  case Nil
  then show ?case by simp
next
  case (Cons c cfgs)
  then show ?case by (auto simp add: Map_set_distinct split: sum.splits)
qed

lemma initializePlugins_other:
  "\<forall>c \<in> set cfgs. plugin_name c \<noteq> n \<Longrightarrow>
   map_of (fst (initializePlugins g cfgs (ps, con))) n = map_of ps n"
proof (induction cfgs arbitrary: ps con)
  case Nil
  show ?case by simp
next
  case (Cons c cfgs)
  then show ?case by (auto simp add: map_of_Map_set split: sum.splits)
qed

lemma distinct_keys_once:
  "distinct (map fst ps) \<Longrightarrow> length (filter (\<lambda>entry. fst entry = n) ps) \<le> 1"
proof (induction ps)
  case Nil
  show ?case by simp
next
  case (Cons p ps)
  show ?case
  proof (cases "fst p = n")
    case True
    from Cons.prems have "fst p \<notin> fst ` set ps" by simp
    with True have "\<forall>entry \<in> set ps. fst entry \<noteq> n" by blast
    then have "filter (\<lambda>entry. fst entry = n) ps = []"
      by (simp add: filter_empty_conv)
    with True show ?thesis by simp
  next
    case False
    with Cons show ?thesis by simp
  qed
qed

lemma Map_set_new: "k \<notin> fst ` set ps \<Longrightarrow> Map_set k v ps = ps @ [(k, v)]"
  by (induction ps) auto

lemma registrationOrder_names:
  "fst ` set (registrationOrder g cfgs) \<subseteq> plugin_name ` set cfgs"
  by (induction cfgs) (auto split: sum.splits)

lemma initializePlugins_fresh:
  "distinct (map plugin_name cfgs) \<Longrightarrow> \<forall>c \<in> set cfgs. plugin_name c \<notin> fst ` set ps \<Longrightarrow>
   fst (initializePlugins g cfgs (ps, con)) = ps @ registrationOrder g cfgs"
proof (induction cfgs arbitrary: ps con)
  case Nil
  show ?case by simp
next
  case (Cons c cfgs)
  let ?loaded = "case g (plugin_name c) of
                   Inl error \<Rightarrow> Inl error
                 | Inr PluginClass \<Rightarrow> PluginClass (plugin_options c)"
  show ?case
  proof (cases ?loaded)
    case (Inl error)
    with Cons show ?thesis by simp
  next
    case (Inr plugin)
    from Cons.prems have fresh: "plugin_name c \<notin> fst ` set ps" by simp
    from Cons.prems(1) have other: "plugin_name c \<notin> plugin_name ` set cfgs" by simp
    have "\<forall>c' \<in> set cfgs. plugin_name c' \<noteq> plugin_name c"
    proof
      fix c'
      assume "c' \<in> set cfgs"
      then have "plugin_name c' \<in> plugin_name ` set cfgs" by (rule imageI)
      with other show "plugin_name c' \<noteq> plugin_name c" by metis
    qed
    with Cons.prems(2) have
      "\<forall>c' \<in> set cfgs. plugin_name c' \<notin> fst ` set (ps @ [(plugin_name c, plugin)])"
      by auto
    with Cons.IH [of "ps @ [(plugin_name c, plugin)]"] Cons.prems(1) Inr fresh show ?thesis
      by (simp add: Map_set_new)
  qed
qed

lemma transformStep_failed: "foldl (transformStep context) (Inl e) ps = Inl e"
  by (induction ps) (simp_all add: transformStep_def)

lemma transformLoop_fold:
  "transformLoop ps context c md s = (foldl (transformStep context) (Inr (c, md)) ps, s)"
proof (induction ps arbitrary: c md)
  case Nil
  show ?case by (simp add: io_defs)
next
  case (Cons p ps)
  show ?case
  proof (cases "transform p")
    case None
    then have "transformStep context (Inr (c, md)) p = Inr (c, md)"
      by (simp add: transformStep_def)
    with None Cons show ?thesis by simp
  next
    case (Some hook)
    show ?thesis
    proof (cases "hook c context")
      case (Inl e)
      with Some have "transformStep context (Inr (c, md)) p = Inl e"
        by (simp add: transformStep_def)
      with Some Inl show ?thesis by (simp add: io_defs transformStep_failed)
    next
      case (Inr result)
      with Some have
        "transformStep context (Inr (c, md)) p =
           Inr (result_content result,
                case result_metadata result of None \<Rightarrow> md | Some m \<Rightarrow> md ++ m)"
        by (simp add: transformStep_def)
      with Some Inr Cons show ?thesis by (simp add: io_defs)
    qed
  qed
qed

section \<open>The fallback of \<open>renderContent\<close>\<close>

text \<open>
  Claim C1, amended. Whenever the \<open>try\<close> block of \<open>renderContent\<close> fails with a value
  that is not \<open>null\<close> or \<open>undefined\<close>: if the value's name is \<open>NotFound\<close> and the path is
  not \<open>404.md\<close>, \<open>renderContent\<close> logs the error and the attempt and renders \<open>404.md\<close>
  under the default content type at route \<open>/404\<close>; when that retry returns, the result is
  the retry's content with status 404 in the state the retry left, and when the retry
  throws, the result is the fixed literal with status 404. In every other case the
  result is the fixed literal with status 404.
\<close>

theorem renderContent_catch:
  assumes "renderAttempt rt this path type route s = (Inl error, s1)"
      and "\<not> nullish error"
  shows "(error_name error = Inr (Some ''NotFound'') \<and> path \<noteq> ''404.md'' \<longrightarrow>
            (\<forall>notFound s2.
               renderContent rt this ''404.md'' (defaultContentType this) ''/404''
                 (s1\<lparr>console := console s1 @
                      [ConsoleError ''Error during content rendering:'' error,
                       ConsoleLog ''Attempting to render 404 page'']\<rparr>) = (Inr notFound, s2) \<longrightarrow>
               renderContent rt this path type route s =
                 (Inr \<lparr>rendered_content = rendered_content notFound, rendered_status = 404\<rparr>, s2))
          \<and> (\<forall>notFoundError s2.
               renderContent rt this ''404.md'' (defaultContentType this) ''/404''
                 (s1\<lparr>console := console s1 @
                      [ConsoleError ''Error during content rendering:'' error,
                       ConsoleLog ''Attempting to render 404 page'']\<rparr>) =
                 (Inl notFoundError, s2) \<longrightarrow>
               renderContent rt this path type route s =
                 (Inr \<lparr>rendered_content =
                         ''<h1>404 - Page Not Found</h1><p>The requested page could not be found.</p>'',
                       rendered_status = 404\<rparr>,
                  s2\<lparr>console := console s2 @
                       [ConsoleError ''Error rendering 404 page:'' notFoundError]\<rparr>)))
       \<and> (\<not> (error_name error = Inr (Some ''NotFound'') \<and> path \<noteq> ''404.md'') \<longrightarrow>
            renderContent rt this path type route s =
              (Inr \<lparr>rendered_content =
                      ''<h1>404 - Page Not Found</h1><p>The requested page could not be found.</p>'',
                    rendered_status = 404\<rparr>,
               s1\<lparr>console := console s1 @
                    [ConsoleError ''Error during content rendering:'' error]\<rparr>))"
proof (intro conjI impI allI)
  fix notFound s2
  assume "error_name error = Inr (Some ''NotFound'') \<and> path \<noteq> ''404.md''"
    and "renderContent rt this ''404.md'' (defaultContentType this) ''/404''
           (s1\<lparr>console := console s1 @
                [ConsoleError ''Error during content rendering:'' error,
                 ConsoleLog ''Attempting to render 404 page'']\<rparr>) = (Inr notFound, s2)"
  with assms(1) show "renderContent rt this path type route s =
      (Inr \<lparr>rendered_content = rendered_content notFound, rendered_status = 404\<rparr>, s2)"
    using renderContent_retry [of rt this path type route s error s1 notFound s2] by blast
next
  fix notFoundError s2
  assume "error_name error = Inr (Some ''NotFound'') \<and> path \<noteq> ''404.md''"
    and "renderContent rt this ''404.md'' (defaultContentType this) ''/404''
           (s1\<lparr>console := console s1 @
                [ConsoleError ''Error during content rendering:'' error,
                 ConsoleLog ''Attempting to render 404 page'']\<rparr>) = (Inl notFoundError, s2)"
  with assms(1) show "renderContent rt this path type route s =
      (Inr \<lparr>rendered_content =
              ''<h1>404 - Page Not Found</h1><p>The requested page could not be found.</p>'',
            rendered_status = 404\<rparr>,
       s2\<lparr>console := console s2 @ [ConsoleError ''Error rendering 404 page:'' notFoundError]\<rparr>)"
    using renderContent_retry_throws [of rt this path type route s error s1 notFoundError s2]
    by (simp add: hardFallback_def)
next
  assume "\<not> (error_name error = Inr (Some ''NotFound'') \<and> path \<noteq> ''404.md'')"
  with assms show "renderContent rt this path type route s =
      (Inr \<lparr>rendered_content =
              ''<h1>404 - Page Not Found</h1><p>The requested page could not be found.</p>'',
            rendered_status = 404\<rparr>,
       s1\<lparr>console := console s1 @ [ConsoleError ''Error during content rendering:'' error]\<rparr>)"
    using renderContent_hard [of rt this path type route s error s1] by (simp add: hardFallback_def)
qed

lemma demo_retry_404:
  "renderContent (demo_runtime files_404 []) (demo_site []) ''404.md'' ''page'' ''/404''
     (state0\<lparr>console :=
        [ConsoleLog ''Rendering content for path: x.md, type: post, route: /blog/x'',
         ConsoleError ''Error during content rendering:'' (DenoError ''NotFound'' ''posts/x.md''),
         ConsoleLog ''Attempting to render 404 page'']\<rparr>) =
   (Inr \<lparr>rendered_content = ''P:gone'', rendered_status = 200\<rparr>,
    \<lparr>compiledTemplates = [''t/page.hbs'' \<mapsto> demo_compile ''P:''],
     console =
        [ConsoleLog ''Rendering content for path: x.md, type: post, route: /blog/x'',
         ConsoleError ''Error during content rendering:'' (DenoError ''NotFound'' ''posts/x.md''),
         ConsoleLog ''Attempting to render 404 page'',
         ConsoleLog ''Rendering content for path: 404.md, type: page, route: /404'',
         ConsoleLog ''Raw content retrieved'',
         ConsoleLog ''Content processed'',
         ConsoleLog ''Rendering template: page'',
         ConsoleLog ''Template rendered successfully: page'',
         ConsoleLog ''Template rendering complete'']\<rparr>)"
  by (rule renderContent_success)
     (simp add: render_defs demo_runtime_def demo_join_def demo_site_def state0_def
        TemplateEngine_new_def files_404_def io_defs demo_compile_def Let_def)

lemma demo_attempt_missing:
  "renderAttempt (demo_runtime files_404 []) (demo_site ps) ''x.md'' ''post'' ''/blog/x'' state0 =
   (Inl (DenoError ''NotFound'' ''posts/x.md''),
    state0\<lparr>console := [ConsoleLog ''Rendering content for path: x.md, type: post, route: /blog/x'']\<rparr>)"
  by (simp add: render_defs demo_defs io_defs)

lemma demo_attempt_unknown:
  "renderAttempt (demo_runtime files_404 []) (demo_site []) ''x.md'' ''news'' ''/x'' state0 =
   (Inl (JsError ''Error'' ''Unknown content type: news''),
    state0\<lparr>console := [ConsoleLog ''Rendering content for path: x.md, type: news, route: /x'']\<rparr>)"
  by (simp add: render_defs demo_defs io_defs)

text \<open>The retry of the same request on a site whose plugin throws \<open>null\<close> on pages.\<close>

lemma demo_retry_null:
  "renderContent (demo_runtime files_404 []) (demo_site [(''null'', null_plugin ''page'')])
     ''404.md'' ''page'' ''/404''
     (state0\<lparr>console :=
        [ConsoleLog ''Rendering content for path: x.md, type: post, route: /blog/x'',
         ConsoleError ''Error during content rendering:'' (DenoError ''NotFound'' ''posts/x.md''),
         ConsoleLog ''Attempting to render 404 page'']\<rparr>) =
   (Inl (JsError ''TypeError'' ''Cannot read properties of null (reading 'name')''),
    state0\<lparr>console :=
        [ConsoleLog ''Rendering content for path: x.md, type: post, route: /blog/x'',
         ConsoleError ''Error during content rendering:'' (DenoError ''NotFound'' ''posts/x.md''),
         ConsoleLog ''Attempting to render 404 page'',
         ConsoleLog ''Rendering content for path: 404.md, type: page, route: /404'',
         ConsoleLog ''Raw content retrieved'',
         ConsoleError ''Error during content rendering:'' ThrownNull]\<rparr>)"
proof -
  have "renderAttempt (demo_runtime files_404 []) (demo_site [(''null'', null_plugin ''page'')])
          ''404.md'' ''page'' ''/404''
          (state0\<lparr>console :=
             [ConsoleLog ''Rendering content for path: x.md, type: post, route: /blog/x'',
              ConsoleError ''Error during content rendering:''
                (DenoError ''NotFound'' ''posts/x.md''),
              ConsoleLog ''Attempting to render 404 page'']\<rparr>) =
        (Inl ThrownNull,
         state0\<lparr>console :=
             [ConsoleLog ''Rendering content for path: x.md, type: post, route: /blog/x'',
              ConsoleError ''Error during content rendering:''
                (DenoError ''NotFound'' ''posts/x.md''),
              ConsoleLog ''Attempting to render 404 page'',
              ConsoleLog ''Rendering content for path: 404.md, type: page, route: /404'',
              ConsoleLog ''Raw content retrieved'']\<rparr>)"
    by (simp add: render_defs demo_defs null_plugin_def io_defs)
  from renderContent_nullish [OF this] show ?thesis by simp
qed

text \<open>
  Witness: a missing post on a site with a 404 page, on the same site with a plugin that
  makes the retry throw, and a request for an unknown content type.
\<close>

theorem renderContent_catch_witness:
  "renderContent (demo_runtime files_404 []) (demo_site []) ''x.md'' ''post'' ''/blog/x'' state0 =
     (Inr \<lparr>rendered_content = ''P:gone'', rendered_status = 404\<rparr>,
      \<lparr>compiledTemplates = [''t/page.hbs'' \<mapsto> demo_compile ''P:''],
       console =
         [ConsoleLog ''Rendering content for path: x.md, type: post, route: /blog/x'',
          ConsoleError ''Error during content rendering:'' (DenoError ''NotFound'' ''posts/x.md''),
          ConsoleLog ''Attempting to render 404 page'',
          ConsoleLog ''Rendering content for path: 404.md, type: page, route: /404'',
          ConsoleLog ''Raw content retrieved'',
          ConsoleLog ''Content processed'',
          ConsoleLog ''Rendering template: page'',
          ConsoleLog ''Template rendered successfully: page'',
          ConsoleLog ''Template rendering complete'']\<rparr>) \<and>
   fst (renderContent (demo_runtime files_404 []) (demo_site [(''null'', null_plugin ''page'')])
          ''x.md'' ''post'' ''/blog/x'' state0) =
     Inr \<lparr>rendered_content =
            ''<h1>404 - Page Not Found</h1><p>The requested page could not be found.</p>'',
          rendered_status = 404\<rparr> \<and>
   fst (renderContent (demo_runtime files_404 []) (demo_site []) ''x.md'' ''news'' ''/x'' state0) =
     Inr \<lparr>rendered_content =
            ''<h1>404 - Page Not Found</h1><p>The requested page could not be found.</p>'',
          rendered_status = 404\<rparr>"
proof -
  have returns:
    "renderContent (demo_runtime files_404 []) (demo_site []) ''x.md'' ''post'' ''/blog/x'' state0 =
       (Inr \<lparr>rendered_content = ''P:gone'', rendered_status = 404\<rparr>,
        \<lparr>compiledTemplates = [''t/page.hbs'' \<mapsto> demo_compile ''P:''],
         console =
           [ConsoleLog ''Rendering content for path: x.md, type: post, route: /blog/x'',
            ConsoleError ''Error during content rendering:'' (DenoError ''NotFound'' ''posts/x.md''),
            ConsoleLog ''Attempting to render 404 page'',
            ConsoleLog ''Rendering content for path: 404.md, type: page, route: /404'',
            ConsoleLog ''Raw content retrieved'',
            ConsoleLog ''Content processed'',
            ConsoleLog ''Rendering template: page'',
            ConsoleLog ''Template rendered successfully: page'',
            ConsoleLog ''Template rendering complete'']\<rparr>)"
    using renderContent_catch [OF demo_attempt_missing [of "[]"], THEN conjunct1] demo_retry_404
    by (simp add: demo_site_def state0_def)
  have throws:
    "fst (renderContent (demo_runtime files_404 []) (demo_site [(''null'', null_plugin ''page'')])
            ''x.md'' ''post'' ''/blog/x'' state0) =
       Inr \<lparr>rendered_content =
              ''<h1>404 - Page Not Found</h1><p>The requested page could not be found.</p>'',
            rendered_status = 404\<rparr>"
    using renderContent_catch
        [OF demo_attempt_missing [of "[(''null'', null_plugin ''page'')]"], THEN conjunct1]
      demo_retry_null
    by (simp add: demo_site_def state0_def)
  have other:
    "fst (renderContent (demo_runtime files_404 []) (demo_site []) ''x.md'' ''news'' ''/x'' state0) =
       Inr \<lparr>rendered_content =
              ''<h1>404 - Page Not Found</h1><p>The requested page could not be found.</p>'',
            rendered_status = 404\<rparr>"
    using renderContent_catch [OF demo_attempt_unknown, THEN conjunct2] by simp
  from returns throws other show ?thesis by simp
qed

text \<open>
  The claim as stated fails in two ways. On a site whose plugin throws \<open>null\<close> on pages, a
  page that exists fails with a value that is not \<open>NotFound\<close>, and \<open>renderContent\<close> throws a
  \<open>TypeError\<close> from reading the value's name instead of returning the literal. On the same
  site a missing post fails with \<open>NotFound\<close>, the retry throws, and the result is the literal,
  not content of the retry.
\<close>

theorem renderContent_null_thrown:
  "renderContent (demo_runtime files_site []) (demo_site [(''null'', null_plugin ''page'')])
     ''about.md'' ''page'' ''/p/about'' state0 =
     (Inl (JsError ''TypeError'' ''Cannot read properties of null (reading 'name')''),
      state0\<lparr>console :=
        [ConsoleLog ''Rendering content for path: about.md, type: page, route: /p/about'',
         ConsoleLog ''Raw content retrieved'',
         ConsoleError ''Error during content rendering:'' ThrownNull]\<rparr>) \<and>
   renderContent (demo_runtime files_404 []) (demo_site [(''null'', null_plugin ''page'')])
     ''x.md'' ''post'' ''/blog/x'' state0 =
     (Inr \<lparr>rendered_content =
             ''<h1>404 - Page Not Found</h1><p>The requested page could not be found.</p>'',
           rendered_status = 404\<rparr>,
      state0\<lparr>console :=
        [ConsoleLog ''Rendering content for path: x.md, type: post, route: /blog/x'',
         ConsoleError ''Error during content rendering:'' (DenoError ''NotFound'' ''posts/x.md''),
         ConsoleLog ''Attempting to render 404 page'',
         ConsoleLog ''Rendering content for path: 404.md, type: page, route: /404'',
         ConsoleLog ''Raw content retrieved'',
         ConsoleError ''Error during content rendering:'' ThrownNull,
         ConsoleError ''Error rendering 404 page:''
           (JsError ''TypeError'' ''Cannot read properties of null (reading 'name')'')]\<rparr>)"
proof -
  have "renderAttempt (demo_runtime files_site []) (demo_site [(''null'', null_plugin ''page'')])
          ''about.md'' ''page'' ''/p/about'' state0 =
        (Inl ThrownNull,
         state0\<lparr>console :=
           [ConsoleLog ''Rendering content for path: about.md, type: page, route: /p/about'',
            ConsoleLog ''Raw content retrieved'']\<rparr>)"
    by (simp add: renderAttempt_def getContent_def processContent_def pluginContext_def
          demo_runtime_def demo_join_def demo_site_def state0_def files_site_def null_plugin_def
          io_defs)
  from renderContent_nullish [OF this] have first:
    "renderContent (demo_runtime files_site []) (demo_site [(''null'', null_plugin ''page'')])
       ''about.md'' ''page'' ''/p/about'' state0 =
       (Inl (JsError ''TypeError'' ''Cannot read properties of null (reading 'name')''),
        state0\<lparr>console :=
          [ConsoleLog ''Rendering content for path: about.md, type: page, route: /p/about'',
           ConsoleLog ''Raw content retrieved'',
           ConsoleError ''Error during content rendering:'' ThrownNull]\<rparr>)"
    by simp
  from renderContent_retry_throws
         [OF demo_attempt_missing [of "[(''null'', null_plugin ''page'')]"], of _ _]
       demo_retry_null
  have "renderContent (demo_runtime files_404 []) (demo_site [(''null'', null_plugin ''page'')])
          ''x.md'' ''post'' ''/blog/x'' state0 =
        (Inr hardFallback,
         state0\<lparr>console :=
           [ConsoleLog ''Rendering content for path: x.md, type: post, route: /blog/x'',
            ConsoleError ''Error during content rendering:'' (DenoError ''NotFound'' ''posts/x.md''),
            ConsoleLog ''Attempting to render 404 page'',
            ConsoleLog ''Rendering content for path: 404.md, type: page, route: /404'',
            ConsoleLog ''Raw content retrieved'',
            ConsoleError ''Error during content rendering:'' ThrownNull,
            ConsoleError ''Error rendering 404 page:''
              (JsError ''TypeError'' ''Cannot read properties of null (reading 'name')'')]\<rparr>)"
    by (simp add: demo_site_def state0_def)
  with first show ?thesis by (simp add: hardFallback_def)
qed

text \<open>
  Claim C2, amended. For a path other than \<open>404.md\<close> whose content file is absent, when
  the file \<open>404.md\<close> of the default content type is absent too, \<open>renderContent\<close> makes
  exactly one recursive retry and returns the fixed literal with status 404: the console
  gains the five lines below, one of them the line that announces the retry.
\<close>

theorem renderContent_both_absent:
  assumes "path \<noteq> ''404.md''"
      and "find (\<lambda>src. source_type src = type) (contentSources this) = Some source"
      and "readTextFile rt (path_join rt [source_path source, path]) = Inl (DenoError ''NotFound'' m)"
      and "find (\<lambda>src. source_type src = defaultContentType this) (contentSources this) =
             Some source404"
      and "readTextFile rt (path_join rt [source_path source404, ''404.md'']) =
             Inl (DenoError ''NotFound'' m404)"
  shows "renderContent rt this path type route s =
           (Inr \<lparr>rendered_content =
                   ''<h1>404 - Page Not Found</h1><p>The requested page could not be found.</p>'',
                 rendered_status = 404\<rparr>,
            s\<lparr>console := console s @
                 [ConsoleLog (''Rendering content for path: '' @ path @ '', type: '' @ type @
                              '', route: '' @ route),
                  ConsoleError ''Error during content rendering:'' (DenoError ''NotFound'' m),
                  ConsoleLog ''Attempting to render 404 page'',
                  ConsoleLog (''Rendering content for path: 404.md, type: '' @
                              defaultContentType this @ '', route: /404''),
                  ConsoleError ''Error during content rendering:''
                    (DenoError ''NotFound'' m404)]\<rparr>)
       \<and> length (filter (\<lambda>line. line = ConsoleLog ''Attempting to render 404 page'')
                   (console (snd (renderContent rt this path type route s)))) =
           length (filter (\<lambda>line. line = ConsoleLog ''Attempting to render 404 page'')
                   (console s)) + 1"
proof -
  let ?l1 = "ConsoleLog (''Rendering content for path: '' @ path @ '', type: '' @ type @
                         '', route: '' @ route)"
  let ?e1 = "ConsoleError ''Error during content rendering:'' (DenoError ''NotFound'' m)"
  let ?a = "ConsoleLog ''Attempting to render 404 page''"
  let ?l2 = "ConsoleLog (''Rendering content for path: 404.md, type: '' @
                         defaultContentType this @ '', route: /404'')"
  let ?e2 = "ConsoleError ''Error during content rendering:'' (DenoError ''NotFound'' m404)"
  have first: "renderAttempt rt this path type route s =
                 (Inl (DenoError ''NotFound'' m), s\<lparr>console := console s @ [?l1]\<rparr>)"
    using assms(2,3) by (simp add: renderAttempt_def getContent_def io_defs)
  have second: "renderAttempt rt this ''404.md'' (defaultContentType this) ''/404''
                  (s\<lparr>console := console s @ [?l1, ?e1, ?a]\<rparr>) =
                (Inl (DenoError ''NotFound'' m404),
                 s\<lparr>console := console s @ [?l1, ?e1, ?a, ?l2]\<rparr>)"
    using assms(4,5) by (simp add: renderAttempt_def getContent_def io_defs)
  have retry: "renderContent rt this ''404.md'' (defaultContentType this) ''/404''
                 (s\<lparr>console := console s @ [?l1, ?e1, ?a]\<rparr>) =
               (Inr hardFallback, s\<lparr>console := console s @ [?l1, ?e1, ?a, ?l2, ?e2]\<rparr>)"
    using renderContent_hard [OF second] by simp
  have result: "renderContent rt this path type route s =
                  (Inr \<lparr>rendered_content = rendered_content hardFallback, rendered_status = 404\<rparr>,
                   s\<lparr>console := console s @ [?l1, ?e1, ?a, ?l2, ?e2]\<rparr>)"
    using renderContent_retry [OF first _ assms(1), of hardFallback] retry by simp
  then show ?thesis by (simp add: hardFallback_def)
qed

text \<open>
  Witness: a post that does not exist, on a site that has no \<open>pages/404.md\<close>.
\<close>

theorem renderContent_both_absent_witness:
  "renderContent (demo_runtime [] []) (demo_site []) ''x.md'' ''post'' ''/blog/x'' state0 =
     (Inr \<lparr>rendered_content =
             ''<h1>404 - Page Not Found</h1><p>The requested page could not be found.</p>'',
           rendered_status = 404\<rparr>,
      state0\<lparr>console :=
        [ConsoleLog ''Rendering content for path: x.md, type: post, route: /blog/x'',
         ConsoleError ''Error during content rendering:'' (DenoError ''NotFound'' ''posts/x.md''),
         ConsoleLog ''Attempting to render 404 page'',
         ConsoleLog ''Rendering content for path: 404.md, type: page, route: /404'',
         ConsoleError ''Error during content rendering:''
           (DenoError ''NotFound'' ''pages/404.md'')]\<rparr>)"
  using renderContent_both_absent [of "''x.md''" "''post''" "demo_site []"
      "\<lparr>source_type = ''post'', source_path = ''posts'', source_route = ''blog/''\<rparr>"
      "demo_runtime [] []" "''posts/x.md''"
      "\<lparr>source_type = ''page'', source_path = ''pages'', source_route = ''p/''\<rparr>"
      "''pages/404.md''" "''/blog/x''" state0]
  by (simp add: demo_site_def demo_runtime_def demo_join_def state0_def)

text \<open>
  The claim as stated fails when the request is for \<open>404.md\<close> itself: the content file is
  absent, the 404 page (the same file) is absent, and \<open>renderContent\<close> returns the literal
  without any retry.
\<close>

theorem renderContent_404_itself_no_retry:
  "readTextFile (demo_runtime [] []) (path_join (demo_runtime [] []) [''pages'', ''404.md'']) =
     Inl (DenoError ''NotFound'' ''pages/404.md'') \<and>
   renderContent (demo_runtime [] []) (demo_site []) ''404.md'' ''page'' ''/404'' state0 =
     (Inr \<lparr>rendered_content =
             ''<h1>404 - Page Not Found</h1><p>The requested page could not be found.</p>'',
           rendered_status = 404\<rparr>,
      state0\<lparr>console :=
        [ConsoleLog ''Rendering content for path: 404.md, type: page, route: /404'',
         ConsoleError ''Error during content rendering:''
           (DenoError ''NotFound'' ''pages/404.md'')]\<rparr>) \<and>
   length (filter (\<lambda>line. line = ConsoleLog ''Attempting to render 404 page'')
     (console (snd (renderContent (demo_runtime [] []) (demo_site []) ''404.md'' ''page'' ''/404''
                      state0)))) = 0"
proof -
  have "renderAttempt (demo_runtime [] []) (demo_site []) ''404.md'' ''page'' ''/404'' state0 =
          (Inl (DenoError ''NotFound'' ''pages/404.md''),
           state0\<lparr>console :=
             [ConsoleLog ''Rendering content for path: 404.md, type: page, route: /404'']\<rparr>)"
    by (simp add: renderAttempt_def getContent_def io_defs demo_site_def demo_runtime_def
          demo_join_def state0_def)
  from renderContent_hard [OF this] show ?thesis
    by (simp add: hardFallback_def demo_runtime_def demo_join_def state0_def)
qed

section \<open>Failures that do not reach the 404 page\<close>

text \<open>
  Claim C7. When no configured content source has the requested type, \<open>getContent\<close> throws
  the error \<open>Unknown content type: ...\<close>, whose name is \<open>Error\<close>; the enclosing
  \<open>renderContent\<close> logs it and returns the fixed literal with status 404, and the console
  shows that the 404 page was not attempted.
\<close>

theorem unknown_content_type:
  assumes "\<forall>src \<in> set (contentSources this). source_type src \<noteq> type"
  shows "getContent rt this path type s =
           (Inl (JsError ''Error'' (''Unknown content type: '' @ type)), s)
       \<and> renderContent rt this path type route s =
           (Inr \<lparr>rendered_content =
                   ''<h1>404 - Page Not Found</h1><p>The requested page could not be found.</p>'',
                 rendered_status = 404\<rparr>,
            s\<lparr>console := console s @
                 [ConsoleLog (''Rendering content for path: '' @ path @ '', type: '' @ type @
                              '', route: '' @ route),
                  ConsoleError ''Error during content rendering:''
                    (JsError ''Error'' (''Unknown content type: '' @ type))]\<rparr>)"
proof -
  from assms have none: "find (\<lambda>src. source_type src = type) (contentSources this) = None"
    by (simp add: find_None_iff)
  then have content: "getContent rt this path type s =
                        (Inl (JsError ''Error'' (''Unknown content type: '' @ type)), s)"
    by (simp add: getContent_def io_defs)
  from none have "renderAttempt rt this path type route s =
      (Inl (JsError ''Error'' (''Unknown content type: '' @ type)),
       s\<lparr>console := console s @
            [ConsoleLog (''Rendering content for path: '' @ path @ '', type: '' @ type @
                         '', route: '' @ route)]\<rparr>)"
    by (simp add: renderAttempt_def getContent_def io_defs)
  from renderContent_hard [OF this] content show ?thesis
    by (simp add: hardFallback_def)
qed

theorem unknown_content_type_witness:
  "getContent (demo_runtime files_404 []) (demo_site []) ''x.md'' ''news'' state0 =
     (Inl (JsError ''Error'' ''Unknown content type: news''), state0) \<and>
   renderContent (demo_runtime files_404 []) (demo_site []) ''x.md'' ''news'' ''/x'' state0 =
     (Inr \<lparr>rendered_content =
             ''<h1>404 - Page Not Found</h1><p>The requested page could not be found.</p>'',
           rendered_status = 404\<rparr>,
      state0\<lparr>console :=
        [ConsoleLog ''Rendering content for path: x.md, type: news, route: /x'',
         ConsoleError ''Error during content rendering:''
           (JsError ''Error'' ''Unknown content type: news'')]\<rparr>)"
  using unknown_content_type [of "demo_site []" "''news''" "demo_runtime files_404 []" "''x.md''"
      state0 "''/x''"]
  by (simp add: demo_site_def state0_def)

text \<open>
  Claim C9, amended. If the content file exists, the template file of its content type
  does not, and neither the markdown processor nor a plugin hook throws \<open>null\<close>,
  \<open>undefined\<close> or an error named \<open>NotFound\<close>, then \<open>renderContent\<close> returns the fixed literal with status 404 and the
  lines it writes to the console do not include the attempt to render the 404 page. The
  compiled-template cache is left as it was.
\<close>

theorem missing_template:
  assumes "find (\<lambda>src. source_type src = type) (contentSources this) = Some source"
      and "readTextFile rt (path_join rt [source_path source, path]) = Inr content"
      and "fs_exists rt (templatePath rt (templateEngine this) type) = Inr False"
      and "\<forall>s e s'. processContent this content type route s = (Inl e, s') \<longrightarrow>
             \<not> nullish e \<and> error_name e \<noteq> Inr (Some ''NotFound'')"
      and "\<forall>templateContext s e s'.
             extendLoop (map snd (plugins this)) templateContext s = (Inl e, s') \<longrightarrow>
             \<not> nullish e \<and> error_name e \<noteq> Inr (Some ''NotFound'')"
  shows "\<exists>lines.
           renderContent rt this path type route s =
             (Inr \<lparr>rendered_content =
                     ''<h1>404 - Page Not Found</h1><p>The requested page could not be found.</p>'',
                   rendered_status = 404\<rparr>,
              s\<lparr>console := console s @ lines\<rparr>)
         \<and> ConsoleLog ''Attempting to render 404 page'' \<notin> set lines"
proof -
  let ?l1 = "ConsoleLog (''Rendering content for path: '' @ path @ '', type: '' @ type @
                         '', route: '' @ route)"
  let ?raw = "ConsoleLog ''Raw content retrieved''"
  let ?s1 = "s\<lparr>console := console s @ [?l1, ?raw]\<rparr>"
  let ?lit = "\<lparr>rendered_content =
                  ''<h1>404 - Page Not Found</h1><p>The requested page could not be found.</p>'',
                rendered_status = 404\<rparr>"
  obtain res where processed: "processContent this content type route ?s1 = (res, ?s1)"
    using processContent_state [of this content type route ?s1]
    by (cases "processContent this content type route ?s1") simp
  show ?thesis
  proof (cases res)
    case (Inl e)
    with processed assms(4) have name: "\<not> nullish e" "error_name e \<noteq> Inr (Some ''NotFound'')"
      by blast+
    from Inl processed assms(1,2) have
      "renderAttempt rt this path type route s = (Inl e, ?s1)"
      by (simp add: renderAttempt_def getContent_def io_defs)
    from renderContent_hard [OF this] name have
      "renderContent rt this path type route s =
         (Inr ?lit, s\<lparr>console := console s @
            [?l1, ?raw, ConsoleError ''Error during content rendering:'' e]\<rparr>)"
      by (simp add: hardFallback_def)
    then show ?thesis by (intro exI [of _ "[?l1, ?raw, ConsoleError ''Error during content rendering:'' e]"]) simp
  next
    case (Inr parsed)
    obtain processedContent metadata where parsed: "parsed = (processedContent, metadata)"
      by (cases parsed)
    let ?done = "ConsoleLog ''Content processed''"
    let ?s2 = "s\<lparr>console := console s @ [?l1, ?raw, ?done]\<rparr>"
    let ?ctx = "[''content'' \<mapsto> VStr processedContent, ''metadata'' \<mapsto> VObj metadata,
                     ''route'' \<mapsto> VStr route, ''siteTitle'' \<mapsto> VStr (siteTitle this)]"
    obtain res2 where extended: "extendLoop (map snd (plugins this)) ?ctx ?s2 = (res2, ?s2)"
      using extendLoop_state [of "map snd (plugins this)" ?ctx ?s2]
      by (cases "extendLoop (map snd (plugins this)) ?ctx ?s2") simp
    show ?thesis
    proof (cases res2)
      case (Inl e)
      with extended assms(5) have name: "\<not> nullish e" "error_name e \<noteq> Inr (Some ''NotFound'')"
      by blast+
      from Inl extended Inr parsed processed assms(1,2) have
        "renderAttempt rt this path type route s = (Inl e, ?s2)"
        by (simp add: renderAttempt_def getContent_def io_defs)
      from renderContent_hard [OF this] name have
        "renderContent rt this path type route s =
           (Inr ?lit, s\<lparr>console := console s @
              [?l1, ?raw, ?done, ConsoleError ''Error during content rendering:'' e]\<rparr>)"
        by (simp add: hardFallback_def)
      then show ?thesis
        by (intro exI [of _ "[?l1, ?raw, ?done, ConsoleError ''Error during content rendering:'' e]"])
           simp
    next
      case (Inr templateContext)
      let ?e = "JsError ''Error''
                  (''Template not found: '' @ templatePath rt (templateEngine this) type)"
      let ?lines = "[?l1, ?raw, ?done, ConsoleLog (''Rendering template: '' @ type),
                     ConsoleError (''Error rendering template '' @ type @ '':'') ?e]"
      from assms(3) have
        "render rt (templateEngine this) type templateContext ?s2 =
           (Inl ?e, s\<lparr>console := console s @ ?lines\<rparr>)"
        by (simp add: render_def io_defs)
      with Inr extended \<open>res = Inr parsed\<close> parsed processed assms(1,2) have
        "renderAttempt rt this path type route s = (Inl ?e, s\<lparr>console := console s @ ?lines\<rparr>)"
        by (simp add: renderAttempt_def getContent_def io_defs)
      from renderContent_hard [OF this] have
        "renderContent rt this path type route s =
           (Inr ?lit, s\<lparr>console := console s @ ?lines @
              [ConsoleError ''Error during content rendering:'' ?e]\<rparr>)"
        by (simp add: hardFallback_def)
      then show ?thesis
        by (intro exI [of _ "?lines @ [ConsoleError ''Error during content rendering:'' ?e]"]) simp
    qed
  qed
qed

text \<open>Witness: the post exists, the site has no template \<open>t/post.hbs\<close> and no plugins.\<close>

theorem missing_template_witness:
  "readTextFile (demo_runtime [(''posts/x.md'', ''hello'')] []) ''posts/x.md'' = Inr ''hello'' \<and>
   fs_exists (demo_runtime [(''posts/x.md'', ''hello'')] []) ''t/post.hbs'' = Inr False \<and>
   (\<exists>lines.
      renderContent (demo_runtime [(''posts/x.md'', ''hello'')] []) (demo_site []) ''x.md'' ''post''
        ''/blog/x'' state0 =
        (Inr \<lparr>rendered_content =
                ''<h1>404 - Page Not Found</h1><p>The requested page could not be found.</p>'',
              rendered_status = 404\<rparr>,
         state0\<lparr>console := console state0 @ lines\<rparr>)
      \<and> ConsoleLog ''Attempting to render 404 page'' \<notin> set lines)"
  using missing_template [of "''post''" "demo_site []"
      "\<lparr>source_type = ''post'', source_path = ''posts'', source_route = ''blog/''\<rparr>"
      "demo_runtime [(''posts/x.md'', ''hello'')] []" "''x.md''" "''hello''" "''/blog/x''" state0]
  by (simp add: demo_site_def demo_runtime_def demo_join_def templatePath_def
        TemplateEngine_new_def processContent_def io_defs)

text \<open>
  The claim as stated fails when a stage before the template throws an error named
  \<open>NotFound\<close>: the post exists and its template does not, a plugin of the site fails to
  read a file of its own, and \<open>renderContent\<close> attempts and returns the rendered 404 page.
  When the plugin throws \<open>null\<close> instead, \<open>renderContent\<close> returns nothing: it throws a
  \<open>TypeError\<close>.
\<close>

theorem missing_template_after_plugin_not_found:
  "readTextFile (demo_runtime files_post []) ''posts/x.md'' = Inr ''hello'' \<and>
   fs_exists (demo_runtime files_post []) ''t/post.hbs'' = Inr False \<and>
   renderContent (demo_runtime files_post []) (demo_site [(''include'', include_plugin)])
     ''x.md'' ''post'' ''/blog/x'' state0 =
     (Inr \<lparr>rendered_content = ''P:gone'', rendered_status = 404\<rparr>,
      \<lparr>compiledTemplates = [''t/page.hbs'' \<mapsto> demo_compile ''P:''],
       console =
         [ConsoleLog ''Rendering content for path: x.md, type: post, route: /blog/x'',
          ConsoleLog ''Raw content retrieved'',
          ConsoleError ''Error during content rendering:'' (DenoError ''NotFound'' ''include.md''),
          ConsoleLog ''Attempting to render 404 page'',
          ConsoleLog ''Rendering content for path: 404.md, type: page, route: /404'',
          ConsoleLog ''Raw content retrieved'',
          ConsoleLog ''Content processed'',
          ConsoleLog ''Rendering template: page'',
          ConsoleLog ''Template rendered successfully: page'',
          ConsoleLog ''Template rendering complete'']\<rparr>) \<and>
   renderContent (demo_runtime files_post []) (demo_site [(''null'', null_plugin ''post'')])
     ''x.md'' ''post'' ''/blog/x'' state0 =
     (Inl (JsError ''TypeError'' ''Cannot read properties of null (reading 'name')''),
      state0\<lparr>console :=
        [ConsoleLog ''Rendering content for path: x.md, type: post, route: /blog/x'',
         ConsoleLog ''Raw content retrieved'',
         ConsoleError ''Error during content rendering:'' ThrownNull]\<rparr>)"
proof -
  let ?rt = "demo_runtime files_post []"
  let ?site = "demo_site [(''include'', include_plugin)]"
  let ?s1 = "state0\<lparr>console :=
               [ConsoleLog ''Rendering content for path: x.md, type: post, route: /blog/x'',
                ConsoleLog ''Raw content retrieved'']\<rparr>"
  have first: "renderAttempt ?rt ?site ''x.md'' ''post'' ''/blog/x'' state0 =
                 (Inl (DenoError ''NotFound'' ''include.md''), ?s1)"
    by (simp add: render_defs demo_defs files_post_def include_plugin_def io_defs Let_def)
  have "renderAttempt ?rt ?site ''404.md'' ''page'' ''/404''
          (?s1\<lparr>console := console ?s1 @
             [ConsoleError ''Error during content rendering:'' (DenoError ''NotFound'' ''include.md''),
              ConsoleLog ''Attempting to render 404 page'']\<rparr>) =
        (Inr \<lparr>rendered_content = ''P:gone'', rendered_status = 200\<rparr>,
         \<lparr>compiledTemplates = [''t/page.hbs'' \<mapsto> demo_compile ''P:''],
          console =
            [ConsoleLog ''Rendering content for path: x.md, type: post, route: /blog/x'',
             ConsoleLog ''Raw content retrieved'',
             ConsoleError ''Error during content rendering:'' (DenoError ''NotFound'' ''include.md''),
             ConsoleLog ''Attempting to render 404 page'',
             ConsoleLog ''Rendering content for path: 404.md, type: page, route: /404'',
             ConsoleLog ''Raw content retrieved'',
             ConsoleLog ''Content processed'',
             ConsoleLog ''Rendering template: page'',
             ConsoleLog ''Template rendered successfully: page'',
             ConsoleLog ''Template rendering complete'']\<rparr>)"
    by (simp add: render_defs demo_defs files_post_def include_plugin_def io_defs Let_def)
  then have "renderContent ?rt ?site ''404.md'' (defaultContentType ?site) ''/404''
          (?s1\<lparr>console := console ?s1 @
             [ConsoleError ''Error during content rendering:'' (DenoError ''NotFound'' ''include.md''),
              ConsoleLog ''Attempting to render 404 page'']\<rparr>) =
        (Inr \<lparr>rendered_content = ''P:gone'', rendered_status = 200\<rparr>,
         \<lparr>compiledTemplates = [''t/page.hbs'' \<mapsto> demo_compile ''P:''],
          console =
            [ConsoleLog ''Rendering content for path: x.md, type: post, route: /blog/x'',
             ConsoleLog ''Raw content retrieved'',
             ConsoleError ''Error during content rendering:'' (DenoError ''NotFound'' ''include.md''),
             ConsoleLog ''Attempting to render 404 page'',
             ConsoleLog ''Rendering content for path: 404.md, type: page, route: /404'',
             ConsoleLog ''Raw content retrieved'',
             ConsoleLog ''Content processed'',
             ConsoleLog ''Rendering template: page'',
             ConsoleLog ''Template rendered successfully: page'',
             ConsoleLog ''Template rendering complete'']\<rparr>)"
    using renderContent_success [of ?rt ?site "''404.md''" "''page''" "''/404''"]
    by (simp add: demo_site_def)
  from renderContent_retry [OF first _ _ this] have retried:
    "renderContent ?rt ?site ''x.md'' ''post'' ''/blog/x'' state0 =
       (Inr \<lparr>rendered_content = ''P:gone'', rendered_status = 404\<rparr>,
        \<lparr>compiledTemplates = [''t/page.hbs'' \<mapsto> demo_compile ''P:''],
         console =
           [ConsoleLog ''Rendering content for path: x.md, type: post, route: /blog/x'',
            ConsoleLog ''Raw content retrieved'',
            ConsoleError ''Error during content rendering:'' (DenoError ''NotFound'' ''include.md''),
            ConsoleLog ''Attempting to render 404 page'',
            ConsoleLog ''Rendering content for path: 404.md, type: page, route: /404'',
            ConsoleLog ''Raw content retrieved'',
            ConsoleLog ''Content processed'',
            ConsoleLog ''Rendering template: page'',
            ConsoleLog ''Template rendered successfully: page'',
            ConsoleLog ''Template rendering complete'']\<rparr>)"
    by simp
  have "renderAttempt ?rt (demo_site [(''null'', null_plugin ''post'')]) ''x.md'' ''post''
          ''/blog/x'' state0 =
        (Inl ThrownNull, ?s1)"
    by (simp add: renderAttempt_def getContent_def processContent_def pluginContext_def
          demo_runtime_def demo_join_def demo_site_def state0_def files_post_def null_plugin_def
          io_defs)
  from renderContent_nullish [OF this] have thrown:
    "renderContent ?rt (demo_site [(''null'', null_plugin ''post'')]) ''x.md'' ''post''
       ''/blog/x'' state0 =
       (Inl (JsError ''TypeError'' ''Cannot read properties of null (reading 'name')''),
        state0\<lparr>console :=
          [ConsoleLog ''Rendering content for path: x.md, type: post, route: /blog/x'',
           ConsoleLog ''Raw content retrieved'',
           ConsoleError ''Error during content rendering:'' ThrownNull]\<rparr>)"
    by simp
  from retried thrown show ?thesis
    by (simp add: demo_runtime_def files_post_def)
qed

section \<open>Request handling\<close>

text \<open>
  Claim C3, amended. Let no collaborator of the render throw \<open>null\<close> or \<open>undefined\<close>. If
  the read of the static asset succeeds or fails with an instance of
  \<open>Deno.errors.NotFound\<close>, \<open>handleRequest\<close> returns a response with status 200 or 404,
  whatever fails while the content is loaded, processed and rendered. If the read fails
  with any other error, \<open>serveStaticFile\<close> throws it again and it leaves \<open>handleRequest\<close>.
\<close>

theorem handleRequest_responds:
  assumes "collaborators_throw_objects rt this s"
  shows "((\<forall>e. readFile rt (path_join rt [assetsDir this, normalizePath path]) = Inl e \<longrightarrow>
              instanceof_NotFound e) \<longrightarrow>
          (\<exists>resp s'. handleRequest rt this path s = (Inr resp, s') \<and>
                      (response_status resp = 200 \<or> response_status resp = 404)))
       \<and> (\<forall>e. readFile rt (path_join rt [assetsDir this, normalizePath path]) = Inl e \<and>
               \<not> instanceof_NotFound e \<longrightarrow>
               handleRequest rt this path s =
                 (Inl e, s\<lparr>console := console s @
                             [ConsoleLog (''Handling request for path: '' @ path)]\<rparr>))"
proof (intro conjI impI allI)
  assume absent: "\<forall>e. readFile rt (path_join rt [assetsDir this, normalizePath path]) = Inl e \<longrightarrow>
                      instanceof_NotFound e"
  show "\<exists>resp s'. handleRequest rt this path s = (Inr resp, s') \<and>
                  (response_status resp = 200 \<or> response_status resp = 404)"
  proof (cases "readFile rt (path_join rt [assetsDir this, normalizePath path])")
    case (Inr bytes)
    then show ?thesis by (simp add: handleRequest_static)
  next
    case (Inl e)
    with absent have "instanceof_NotFound e" by simp
    moreover from assms have
      "collaborators_throw_objects rt this
         (s\<lparr>console := console s @
              [ConsoleLog (''Handling request for path: '' @ path),
               ConsoleLog (''Rendering content for path: '' @ normalizePath path)]\<rparr>)"
      by (simp add: collaborators_console)
    ultimately show ?thesis
      using Inl routeLoop_returns by (simp add: handleRequest_content)
  qed
next
  fix e
  assume "readFile rt (path_join rt [assetsDir this, normalizePath path]) = Inl e \<and>
          \<not> instanceof_NotFound e"
  then show "handleRequest rt this path s =
               (Inl e, s\<lparr>console := console s @
                           [ConsoleLog (''Handling request for path: '' @ path)]\<rparr>)"
    by (simp add: handleRequest_rethrow)
qed

lemma demo_collaborators:
  "collaborators_throw_objects (demo_runtime files dirs) (demo_site []) state0"
  by (auto simp add: collaborators_throw_objects_def throws_objects_def demo_runtime_def
        demo_site_def demo_compile_def TemplateEngine_new_def state0_def
        split: option.splits if_splits)

text \<open>
  Witness: a style sheet that is served, a page that is not an asset, and a directory
  of assets requested by its name.
\<close>

theorem handleRequest_responds_witness:
  "collaborators_throw_objects (demo_runtime files_site [''assets/css'']) (demo_site []) state0 \<and>
   (\<exists>resp s'. handleRequest (demo_runtime files_site [''assets/css'']) (demo_site []) ''/site.css''
                 state0 = (Inr resp, s') \<and>
               (response_status resp = 200 \<or> response_status resp = 404)) \<and>
   (\<exists>resp s'. handleRequest (demo_runtime files_site [''assets/css'']) (demo_site []) ''/p/about''
                 state0 = (Inr resp, s') \<and>
               (response_status resp = 200 \<or> response_status resp = 404)) \<and>
   handleRequest (demo_runtime files_site [''assets/css'']) (demo_site []) ''/css'' state0 =
     (Inl (DenoError ''IsADirectory'' ''assets/css''),
      state0\<lparr>console := [ConsoleLog ''Handling request for path: /css'']\<rparr>)"
  using handleRequest_responds [OF demo_collaborators, of files_site "[''assets/css'']"
          "''/site.css''"]
        handleRequest_responds [OF demo_collaborators, of files_site "[''assets/css'']"
          "''/p/about''"]
        handleRequest_responds [OF demo_collaborators, of files_site "[''assets/css'']"
          "''/css''"]
        demo_collaborators [of files_site "[''assets/css'']"]
  by (simp add: demo_runtime_def demo_site_def demo_join_def files_site_def normalizePath_def
        state0_def)

text \<open>
  The claim as stated fails for a request that names a directory of assets: the read
  fails with an error that is not \<open>NotFound\<close>, which \<open>serveStaticFile\<close> throws again, and
  \<open>handleRequest\<close> ends with that error instead of a response. It also fails for a page
  of a site whose plugin throws \<open>null\<close>: the \<open>TypeError\<close> that \<open>renderContent\<close> throws
  leaves \<open>handleRequest\<close>.
\<close>

theorem handleRequest_errors_escape:
  "handleRequest (demo_runtime files_site [''assets/css'']) (demo_site []) ''/css'' state0 =
     (Inl (DenoError ''IsADirectory'' ''assets/css''),
      state0\<lparr>console := [ConsoleLog ''Handling request for path: /css'']\<rparr>) \<and>
   handleRequest (demo_runtime files_site []) (demo_site [(''null'', null_plugin ''page'')])
     ''/p/about'' state0 =
     (Inl (JsError ''TypeError'' ''Cannot read properties of null (reading 'name')''),
      state0\<lparr>console :=
        [ConsoleLog ''Handling request for path: /p/about'',
         ConsoleLog ''Rendering content for path: p/about'',
         ConsoleLog ''Rendering content for path: about.md, type: page, route: /p/about'',
         ConsoleLog ''Raw content retrieved'',
         ConsoleError ''Error during content rendering:'' ThrownNull]\<rparr>)"
proof -
  let ?rt = "demo_runtime files_site []"
  let ?site = "demo_site [(''null'', null_plugin ''page'')]"
  let ?s = "state0\<lparr>console :=
              [ConsoleLog ''Handling request for path: /p/about'',
               ConsoleLog ''Rendering content for path: p/about'']\<rparr>"
  have directory:
    "handleRequest (demo_runtime files_site [''assets/css'']) (demo_site []) ''/css'' state0 =
       (Inl (DenoError ''IsADirectory'' ''assets/css''),
        state0\<lparr>console := [ConsoleLog ''Handling request for path: /css'']\<rparr>)"
    by (simp add: handleRequest_def serveStaticFile_def io_defs Let_def demo_runtime_def
          demo_site_def demo_join_def files_site_def normalizePath_def state0_def)
  have "renderAttempt ?rt ?site ''about.md'' ''page'' ''/p/about'' ?s =
          (Inl ThrownNull,
           state0\<lparr>console :=
             [ConsoleLog ''Handling request for path: /p/about'',
              ConsoleLog ''Rendering content for path: p/about'',
              ConsoleLog ''Rendering content for path: about.md, type: page, route: /p/about'',
              ConsoleLog ''Raw content retrieved'']\<rparr>)"
    by (simp add: renderAttempt_def getContent_def processContent_def pluginContext_def
          demo_runtime_def demo_join_def demo_site_def state0_def files_site_def null_plugin_def
          io_defs)
  from renderContent_nullish [OF this] have thrown:
    "renderContent ?rt ?site ''about.md'' ''page'' ''/p/about'' ?s =
       (Inl (JsError ''TypeError'' ''Cannot read properties of null (reading 'name')''),
        state0\<lparr>console :=
          [ConsoleLog ''Handling request for path: /p/about'',
           ConsoleLog ''Rendering content for path: p/about'',
           ConsoleLog ''Rendering content for path: about.md, type: page, route: /p/about'',
           ConsoleLog ''Raw content retrieved'',
           ConsoleError ''Error during content rendering:'' ThrownNull]\<rparr>)"
    by simp
  have absent: "readFile ?rt (path_join ?rt [assetsDir ?site, normalizePath ''/p/about'']) =
                  Inl (DenoError ''NotFound'' ''assets/p/about'')"
    by (simp add: demo_runtime_def demo_site_def demo_join_def files_site_def normalizePath_def)
  have "handleRequest ?rt ?site ''/p/about'' state0 =
          routeLoop ?rt ?site ''p/about'' ''p/about.md'' (contentSources ?site) ?s"
    using handleRequest_content [OF absent, of state0]
    by (simp add: normalizePath_def withMdSuffix_def suffix_def state0_def)
  also have "\<dots> = bindE (renderContent ?rt ?site ''about.md'' ''page'' ''/p/about'')
                     (\<lambda>r. returnE (htmlResponse r)) ?s"
    by (simp add: demo_site_def)
  also have "\<dots> = (Inl (JsError ''TypeError'' ''Cannot read properties of null (reading 'name')''),
        state0\<lparr>console :=
          [ConsoleLog ''Handling request for path: /p/about'',
           ConsoleLog ''Rendering content for path: p/about'',
           ConsoleLog ''Rendering content for path: about.md, type: page, route: /p/about'',
           ConsoleLog ''Raw content retrieved'',
           ConsoleError ''Error during content rendering:'' ThrownNull]\<rparr>)"
    using thrown by (simp add: bindE_def)
  finally show ?thesis using directory by simp
qed

text \<open>
  Claim C4, amended. When the request is not answered by a static asset, \<open>handleRequest\<close> renders
  under the first content source, in configuration order, whose route is a prefix of the
  normalized path before the suffix is added; the path it renders is the suffixed path
  without that route prefix, and the route is the normalized path after a slash. When no
  source's route is a prefix, it renders the whole suffixed path under the default content
  type.
\<close>

theorem handleRequest_first_match:
  assumes "readFile rt (path_join rt [assetsDir this, p]) = Inl e"
      and "instanceof_NotFound e"
      and "p = normalizePath path"
  shows "(\<forall>pre source post.
            contentSources this = pre @ source # post \<and>
            (\<forall>x \<in> set pre. \<not> prefix (source_route x) p) \<and>
            prefix (source_route source) p \<longrightarrow>
              handleRequest rt this path s =
                bindE (renderContent rt this (drop (length (source_route source)) (withMdSuffix p))
                         (source_type source) (''/'' @ p))
                  (\<lambda>r. returnE (htmlResponse r))
                  (s\<lparr>console := console s @
                       [ConsoleLog (''Handling request for path: '' @ path),
                        ConsoleLog (''Rendering content for path: '' @ p)]\<rparr>)
              \<and> source_route source @ drop (length (source_route source)) (withMdSuffix p) =
                  withMdSuffix p)
       \<and> ((\<forall>x \<in> set (contentSources this). \<not> prefix (source_route x) p) \<longrightarrow>
              handleRequest rt this path s =
                bindE (renderContent rt this (withMdSuffix p) (defaultContentType this) (''/'' @ p))
                  (\<lambda>r. returnE (htmlResponse r))
                  (s\<lparr>console := console s @
                       [ConsoleLog (''Handling request for path: '' @ path),
                        ConsoleLog (''Rendering content for path: '' @ p)]\<rparr>))"
proof -
  let ?s = "s\<lparr>console := console s @
               [ConsoleLog (''Handling request for path: '' @ path),
                ConsoleLog (''Rendering content for path: '' @ p)]\<rparr>"
  from assms have route:
    "handleRequest rt this path s = routeLoop rt this p (withMdSuffix p) (contentSources this) ?s"
    by (simp add: handleRequest_content)
  show ?thesis
  proof (intro conjI allI impI)
    fix pre source post
    assume match: "contentSources this = pre @ source # post \<and>
                   (\<forall>x \<in> set pre. \<not> prefix (source_route x) p) \<and>
                   prefix (source_route source) p"
    then have "routeLoop rt this p (withMdSuffix p) (contentSources this) =
                 bindE (renderContent rt this (drop (length (source_route source)) (withMdSuffix p))
                          (source_type source) (''/'' @ p))
                   (\<lambda>r. returnE (htmlResponse r))"
      by (simp add: routeLoop_first)
    with route show "handleRequest rt this path s =
        bindE (renderContent rt this (drop (length (source_route source)) (withMdSuffix p))
                 (source_type source) (''/'' @ p))
          (\<lambda>r. returnE (htmlResponse r)) ?s"
      by simp
    from match show "source_route source @ drop (length (source_route source)) (withMdSuffix p) =
                       withMdSuffix p"
      by (simp add: strip_prefix prefix_withMdSuffix)
  next
    assume "\<forall>x \<in> set (contentSources this). \<not> prefix (source_route x) p"
    then have "routeLoop rt this p (withMdSuffix p) (contentSources this) =
                 bindE (renderContent rt this (withMdSuffix p) (defaultContentType this) (''/'' @ p))
                   (\<lambda>r. returnE (htmlResponse r))"
      by (rule routeLoop_none)
    with route show "handleRequest rt this path s =
        bindE (renderContent rt this (withMdSuffix p) (defaultContentType this) (''/'' @ p))
          (\<lambda>r. returnE (htmlResponse r)) ?s"
      by simp
  qed
qed

text \<open>
  Witness: \<open>/blog/drafts/a\<close> matches the routes \<open>blog/\<close> and \<open>blog/drafts/\<close> and is rendered
  under the first, as \<open>drafts/a.md\<close>; \<open>/about\<close> matches no route and is rendered as
  \<open>about.md\<close> under the default type.
\<close>

theorem handleRequest_first_match_witness:
  "handleRequest (demo_runtime files_site []) (demo_site []) ''/blog/drafts/a'' state0 =
     bindE (renderContent (demo_runtime files_site []) (demo_site []) ''drafts/a.md'' ''post''
              ''/blog/drafts/a'')
       (\<lambda>r. returnE (htmlResponse r))
       (state0\<lparr>console :=
          [ConsoleLog ''Handling request for path: /blog/drafts/a'',
           ConsoleLog ''Rendering content for path: blog/drafts/a'']\<rparr>) \<and>
   handleRequest (demo_runtime files_site []) (demo_site []) ''/about'' state0 =
     bindE (renderContent (demo_runtime files_site []) (demo_site []) ''about.md'' ''page'' ''/about'')
       (\<lambda>r. returnE (htmlResponse r))
       (state0\<lparr>console :=
          [ConsoleLog ''Handling request for path: /about'',
           ConsoleLog ''Rendering content for path: about'']\<rparr>)"
proof -
  let ?rt = "demo_runtime files_site []"
  have absent1: "readFile ?rt (path_join ?rt [assetsDir (demo_site []), ''blog/drafts/a'']) =
                   Inl (DenoError ''NotFound'' ''assets/blog/drafts/a'')"
    by (simp add: demo_runtime_def demo_site_def demo_join_def files_site_def)
  have absent2: "readFile ?rt (path_join ?rt [assetsDir (demo_site []), ''about'']) =
                   Inl (DenoError ''NotFound'' ''assets/about'')"
    by (simp add: demo_runtime_def demo_site_def demo_join_def files_site_def)
  have first: "handleRequest ?rt (demo_site []) ''/blog/drafts/a'' state0 =
     bindE (renderContent ?rt (demo_site []) ''drafts/a.md'' ''post'' ''/blog/drafts/a'')
       (\<lambda>r. returnE (htmlResponse r))
       (state0\<lparr>console :=
          [ConsoleLog ''Handling request for path: /blog/drafts/a'',
           ConsoleLog ''Rendering content for path: blog/drafts/a'']\<rparr>)"
    using handleRequest_first_match [OF absent1, of "''/blog/drafts/a''" state0,
        THEN conjunct1, rule_format, of "[]"
        "\<lparr>source_type = ''post'', source_path = ''posts'', source_route = ''blog/''\<rparr>"
        "[\<lparr>source_type = ''page'', source_path = ''pages'', source_route = ''p/''\<rparr>,
          \<lparr>source_type = ''draft'', source_path = ''drafts'', source_route = ''blog/drafts/''\<rparr>]"]
    by (simp add: normalizePath_def withMdSuffix_def demo_site_def state0_def suffix_def)
  have none: "handleRequest ?rt (demo_site []) ''/about'' state0 =
     bindE (renderContent ?rt (demo_site []) ''about.md'' ''page'' ''/about'')
       (\<lambda>r. returnE (htmlResponse r))
       (state0\<lparr>console :=
          [ConsoleLog ''Handling request for path: /about'',
           ConsoleLog ''Rendering content for path: about'']\<rparr>)"
    using handleRequest_first_match [OF absent2, of "''/about''" state0, THEN conjunct2]
    by (simp add: normalizePath_def withMdSuffix_def demo_site_def state0_def suffix_def)
  from first none show ?thesis by simp
qed

text \<open>
  The claim as stated fails for a path that names a static asset: \<open>/site.css\<close> matches no
  route, and \<open>handleRequest\<close> serves the file with status 200 instead of rendering
  \<open>site.css.md\<close> under the default content type.
\<close>

theorem handleRequest_static_first:
  "handleRequest (demo_runtime files_site []) (demo_site []) ''/site.css'' state0 =
     (Inr \<lparr>response_content = Bytes (map of_char ''a{}''),
           response_contentType = ''text/css; charset=UTF-8'',
           response_status = 200\<rparr>,
      state0\<lparr>console :=
        [ConsoleLog ''Handling request for path: /site.css'',
         ConsoleLog ''Serving static file: site.css'']\<rparr>)"
  by (simp add: handleRequest_def serveStaticFile_def io_defs Let_def demo_runtime_def
        demo_site_def demo_join_def files_site_def normalizePath_def state0_def or_default_def)

text \<open>
  Claim C8. \<open>handleRequest\<close> removes one leading slash, and only one, from its input and
  replaces an empty result by \<open>index\<close>; for content rendering it adds \<open>.md\<close> exactly when
  the path does not end in \<open>.md\<close>, so that adding the suffix twice is the same as adding
  it once. The normalized path and the suffixed path are the ones the router works with.
\<close>

theorem handleRequest_normalizes:
  "normalizePath (CHR ''/'' # rest) = (if rest = [] then ''index'' else rest)
 \<and> (\<not> prefix ''/'' path \<longrightarrow> normalizePath path = (if path = [] then ''index'' else path))
 \<and> (suffix ''.md'' p \<longrightarrow> withMdSuffix p = p)
 \<and> (\<not> suffix ''.md'' p \<longrightarrow> withMdSuffix p = p @ ''.md'')
 \<and> suffix ''.md'' (withMdSuffix p)
 \<and> withMdSuffix (withMdSuffix p) = withMdSuffix p
 \<and> (\<forall>e. readFile rt (path_join rt [assetsDir this, normalizePath path]) = Inl e \<and>
         instanceof_NotFound e \<longrightarrow>
         handleRequest rt this path s =
           routeLoop rt this (normalizePath path) (withMdSuffix (normalizePath path))
             (contentSources this)
             (s\<lparr>console := console s @
                  [ConsoleLog (''Handling request for path: '' @ path),
                   ConsoleLog (''Rendering content for path: '' @ normalizePath path)]\<rparr>))"
proof (intro conjI impI allI)
  show "normalizePath (CHR ''/'' # rest) = (if rest = [] then ''index'' else rest)"
    by (simp add: normalizePath_def)
next
  assume "\<not> prefix ''/'' path"
  then show "normalizePath path = (if path = [] then ''index'' else path)"
    by (cases path) (simp_all add: normalizePath_def)
next
  assume "suffix ''.md'' p"
  then show "withMdSuffix p = p" by (simp add: withMdSuffix_def)
next
  assume "\<not> suffix ''.md'' p"
  then show "withMdSuffix p = p @ ''.md''" by (simp add: withMdSuffix_def)
next
  show ends: "suffix ''.md'' (withMdSuffix p)"
    by (simp add: withMdSuffix_def suffix_def)
  then show "withMdSuffix (withMdSuffix p) = withMdSuffix p"
    by (simp add: withMdSuffix_def [of "withMdSuffix p"])
next
  fix e
  assume "readFile rt (path_join rt [assetsDir this, normalizePath path]) = Inl e \<and>
          instanceof_NotFound e"
  then show "handleRequest rt this path s =
      routeLoop rt this (normalizePath path) (withMdSuffix (normalizePath path))
        (contentSources this)
        (s\<lparr>console := console s @
             [ConsoleLog (''Handling request for path: '' @ path),
              ConsoleLog (''Rendering content for path: '' @ normalizePath path)]\<rparr>)"
    by (simp add: handleRequest_content)
qed

text \<open>
  Witness: \<open>/\<close> becomes \<open>index\<close> and then \<open>index.md\<close>; of two leading slashes one is left;
  \<open>p/about.md\<close> keeps its single suffix.
\<close>

theorem handleRequest_normalizes_witness:
  "normalizePath ''/'' = ''index'' \<and> normalizePath '''' = ''index'' \<and>
   normalizePath ''//a'' = ''/a'' \<and> normalizePath ''p/about.md'' = ''p/about.md'' \<and>
   withMdSuffix ''index'' = ''index.md'' \<and> withMdSuffix ''p/about.md'' = ''p/about.md'' \<and>
   handleRequest (demo_runtime files_site []) (demo_site []) ''/'' state0 =
     routeLoop (demo_runtime files_site []) (demo_site []) ''index'' ''index.md''
       (contentSources (demo_site []))
       (state0\<lparr>console :=
          [ConsoleLog ''Handling request for path: /'',
           ConsoleLog ''Rendering content for path: index'']\<rparr>)"
  using handleRequest_normalizes [of "[]" "[]" "''index''" "demo_runtime files_site []" "demo_site []"
          state0]
        handleRequest_normalizes [of "''/a''" "''p/about.md''" "''p/about.md''"
          "demo_runtime files_site []" "demo_site []" state0]
        handleRequest_normalizes [of "[]" "''/''" "''index''" "demo_runtime files_site []"
          "demo_site []" state0]
  by (simp add: demo_runtime_def demo_site_def demo_join_def files_site_def state0_def suffix_def)

section \<open>The plugin chain\<close>

text \<open>
  Claim C5, amended. \<open>processContent\<close> runs the transform hooks in the order of the plugin
  map: the loop is the left fold of \<open>transformStep\<close> over the map's plugins, so a plugin
  without a transform hook changes nothing, a hook's content replaces the content, returned
  metadata are merged with later writes winning per key, and a hook that returns no
  metadata leaves them as they are. When the configured plugin names are distinct, the
  plugin map of the site is the registration order, and \<open>processContent\<close> is the fold over
  the registered plugins in that order. When plugin A comes before plugin B in the map,
  with only plugins without a transform hook around them, a key B sets has B's value,
  whatever A set it to.
\<close>

theorem processContent_order:
  "transformLoop ps context c md s = (foldl (transformStep context) (Inr (c, md)) ps, s)
 \<and> (distinct (map plugin_name (cfg_plugins cfg)) \<longrightarrow>
       plugins (fst (SimplSite_new markdown compile getPluginClass cfg)) =
         registrationOrder getPluginClass (cfg_plugins cfg) \<and>
       processContent (fst (SimplSite_new markdown compile getPluginClass cfg)) content type route s =
         (case markdown content of
            Inl e \<Rightarrow> (Inl e, s)
          | Inr (c0, md0) \<Rightarrow>
              (foldl (transformStep
                        (pluginContext (fst (SimplSite_new markdown compile getPluginClass cfg))
                           type route))
                 (Inr (c0, md0))
                 (map snd (registrationOrder getPluginClass (cfg_plugins cfg))), s)))
 \<and> (plugins this = pre @ (nameA, A) # mid @ (nameB, B) # post \<and>
     (\<forall>entry \<in> set (pre @ mid @ post). transform (snd entry) = None) \<and>
     markdownProcessor this content = Inr (c0, md0) \<and>
     transform A = Some hookA \<and>
     hookA c0 (pluginContext this type route) =
       Inr \<lparr>result_content = cA, result_metadata = Some mA\<rparr> \<and>
     transform B = Some hookB \<and>
     hookB cA (pluginContext this type route) =
       Inr \<lparr>result_content = cB, result_metadata = Some mB\<rparr> \<and>
     mB k = Some vB \<longrightarrow>
       processContent this content type route s = (Inr (cB, md0 ++ mA ++ mB), s) \<and>
       (md0 ++ mA ++ mB) k = Some vB)"
proof (intro conjI impI)
  show "transformLoop ps context c md s = (foldl (transformStep context) (Inr (c, md)) ps, s)"
    by (rule transformLoop_fold)
next
  let ?site = "fst (SimplSite_new markdown compile getPluginClass cfg)"
  assume names: "distinct (map plugin_name (cfg_plugins cfg))"
  have built: "plugins ?site = fst (initializePlugins getPluginClass (cfg_plugins cfg) ([], []))"
    "markdownProcessor ?site = markdown"
    by (simp_all add: SimplSite_new_def split: prod.splits)
  from names show registered:
    "plugins ?site = registrationOrder getPluginClass (cfg_plugins cfg)"
    using initializePlugins_fresh [of "cfg_plugins cfg" "[]" getPluginClass "[]"]
    by (simp add: built)
  show "processContent ?site content type route s =
         (case markdown content of
            Inl e \<Rightarrow> (Inl e, s)
          | Inr (c0, md0) \<Rightarrow>
              (foldl (transformStep (pluginContext ?site type route)) (Inr (c0, md0))
                 (map snd (registrationOrder getPluginClass (cfg_plugins cfg))), s))"
    by (simp add: processContent_def built(2) registered transformLoop_fold io_defs
          split: sum.splits prod.splits)
next
  assume h: "plugins this = pre @ (nameA, A) # mid @ (nameB, B) # post \<and>
     (\<forall>entry \<in> set (pre @ mid @ post). transform (snd entry) = None) \<and>
     markdownProcessor this content = Inr (c0, md0) \<and>
     transform A = Some hookA \<and>
     hookA c0 (pluginContext this type route) =
       Inr \<lparr>result_content = cA, result_metadata = Some mA\<rparr> \<and>
     transform B = Some hookB \<and>
     hookB cA (pluginContext this type route) =
       Inr \<lparr>result_content = cB, result_metadata = Some mB\<rparr> \<and>
     mB k = Some vB"
  let ?ctx = "pluginContext this type route"
  from h have idle: "\<forall>p \<in> set (map snd pre). transform p = None"
    "\<forall>p \<in> set (map snd mid). transform p = None" "\<forall>p \<in> set (map snd post). transform p = None"
    by auto
  have tail: "transformLoop (map snd post) ?ctx cB (md0 ++ mA ++ mB) =
                returnE (cB, md0 ++ mA ++ mB)"
    using transformLoop_skip [OF idle(3), of "[]"] by simp
  have b: "transformLoop (B # map snd post) ?ctx cA (md0 ++ mA) =
             returnE (cB, md0 ++ mA ++ mB)"
    using h tail by (simp add: io_defs)
  have a: "transformLoop (A # map snd mid @ B # map snd post) ?ctx c0 md0 =
             returnE (cB, md0 ++ mA ++ mB)"
    using h b transformLoop_skip [OF idle(2), of "B # map snd post"] by (simp add: io_defs)
  have "transformLoop (map snd (plugins this)) ?ctx c0 md0 = returnE (cB, md0 ++ mA ++ mB)"
    using h a transformLoop_skip [OF idle(1), of "A # map snd mid @ B # map snd post"] by simp
  with h show "processContent this content type route s = (Inr (cB, md0 ++ mA ++ mB), s)"
    by (simp add: processContent_def io_defs)
  from h show "(md0 ++ mA ++ mB) k = Some vB"
    by (simp add: map_add_def)
qed

text \<open>
  Witness: the configurations \<open>a\<close>, \<open>tag\<close> and \<open>b\<close>, whose plugins append \<open>1\<close>, \<open>t\<close> and
  \<open>2\<close>; \<open>tag\<close> returns no metadata, \<open>a\<close> and \<open>b\<close> set \<open>x\<close>. And a site with a plugin
  without hooks before \<open>plugin_a\<close> and \<open>plugin_b\<close>.
\<close>

theorem processContent_order_witness:
  "processContent
     (fst (SimplSite_new demo_markdown demo_compile key_registry
        (demo_config [\<lparr>plugin_name = ''a'', plugin_options = VStr ''1''\<rparr>,
                      \<lparr>plugin_name = ''tag'', plugin_options = VStr ''t''\<rparr>,
                      \<lparr>plugin_name = ''b'', plugin_options = VStr ''2''\<rparr>])))
     ''c'' ''post'' ''/blog/x'' state0 =
     (Inr (''c1t2'', Map.empty ++ [''x'' \<mapsto> VStr ''1''] ++ [''x'' \<mapsto> VStr ''2'']), state0) \<and>
   processContent
     (demo_site [(''idle'', plugin_idle), (''a'', plugin_a), (''b'', plugin_b)])
     ''c'' ''post'' ''/blog/x'' state0 =
     (Inr (''cab'', Map.empty ++ [''x'' \<mapsto> VStr ''A''] ++ [''x'' \<mapsto> VStr ''B'']), state0) \<and>
   (Map.empty ++ [''x'' \<mapsto> VStr ''A''] ++ [''x'' \<mapsto> VStr ''B'']) ''x'' = Some (VStr ''B'')"
proof -
  let ?cfgs = "[\<lparr>plugin_name = ''a'', plugin_options = VStr ''1''\<rparr>,
                \<lparr>plugin_name = ''tag'', plugin_options = VStr ''t''\<rparr>,
                \<lparr>plugin_name = ''b'', plugin_options = VStr ''2''\<rparr>]"
  have configured:
    "processContent
       (fst (SimplSite_new demo_markdown demo_compile key_registry (demo_config ?cfgs)))
       ''c'' ''post'' ''/blog/x'' state0 =
       (Inr (''c1t2'', Map.empty ++ [''x'' \<mapsto> VStr ''1''] ++ [''x'' \<mapsto> VStr ''2'']), state0)"
    using processContent_order [THEN conjunct2, THEN conjunct1, rule_format,
        of "demo_config ?cfgs" demo_markdown demo_compile key_registry "''c''" "''post''"
           "''/blog/x''" state0, THEN conjunct2]
    by (simp add: demo_config_def demo_markdown_def key_registry_def key_plugin_def
          tag_plugin_def transformStep_def)
  have scenario:
    "processContent
       (demo_site [(''idle'', plugin_idle), (''a'', plugin_a), (''b'', plugin_b)])
       ''c'' ''post'' ''/blog/x'' state0 =
       (Inr (''cab'', Map.empty ++ [''x'' \<mapsto> VStr ''A''] ++ [''x'' \<mapsto> VStr ''B'']), state0) \<and>
     (Map.empty ++ [''x'' \<mapsto> VStr ''A''] ++ [''x'' \<mapsto> VStr ''B'']) ''x'' = Some (VStr ''B'')"
    using processContent_order [THEN conjunct2, THEN conjunct2, rule_format,
        of "demo_site [(''idle'', plugin_idle), (''a'', plugin_a), (''b'', plugin_b)]"
           "[(''idle'', plugin_idle)]" "''a''" plugin_a "[]" "''b''" plugin_b "[]"
           "''c''" "''c''" Map.empty
           "\<lambda>content context.
              Inr \<lparr>result_content = content @ ''a'', result_metadata = Some [''x'' \<mapsto> VStr ''A'']\<rparr>"
           "''post''" "''/blog/x''" "''ca''" "[''x'' \<mapsto> VStr ''A'']"
           "\<lambda>content context.
              Inr \<lparr>result_content = content @ ''b'', result_metadata = Some [''x'' \<mapsto> VStr ''B'']\<rparr>"
           "''cab''" "[''x'' \<mapsto> VStr ''B'']" "''x''" "VStr ''B''" state0]
    by (simp add: demo_site_def plugin_a_def plugin_b_def plugin_idle_def)
  from configured scenario show ?thesis by simp
qed

text \<open>
  The claim as stated fails when a plugin name is configured twice: of the configurations
  \<open>b\<close>, \<open>a\<close>, \<open>b\<close> the third replaces the first in the first's place, so the plugin
  registered last runs first, and the key \<open>x\<close> that both set ends with the value of \<open>a\<close>.
\<close>

theorem processContent_reregistered:
  "registrationOrder key_registry
     [\<lparr>plugin_name = ''b'', plugin_options = VStr ''1''\<rparr>,
      \<lparr>plugin_name = ''a'', plugin_options = VStr ''2''\<rparr>,
      \<lparr>plugin_name = ''b'', plugin_options = VStr ''3''\<rparr>] =
     [(''b'', key_plugin (VStr ''1'')), (''a'', key_plugin (VStr ''2'')),
      (''b'', key_plugin (VStr ''3''))] \<and>
   plugins (fst (SimplSite_new demo_markdown demo_compile key_registry
     (demo_config [\<lparr>plugin_name = ''b'', plugin_options = VStr ''1''\<rparr>,
                   \<lparr>plugin_name = ''a'', plugin_options = VStr ''2''\<rparr>,
                   \<lparr>plugin_name = ''b'', plugin_options = VStr ''3''\<rparr>]))) =
     [(''b'', key_plugin (VStr ''3'')), (''a'', key_plugin (VStr ''2''))] \<and>
   processContent
     (fst (SimplSite_new demo_markdown demo_compile key_registry
        (demo_config [\<lparr>plugin_name = ''b'', plugin_options = VStr ''1''\<rparr>,
                      \<lparr>plugin_name = ''a'', plugin_options = VStr ''2''\<rparr>,
                      \<lparr>plugin_name = ''b'', plugin_options = VStr ''3''\<rparr>])))
     ''c'' ''post'' ''/blog/x'' state0 =
     (Inr (''c32'', Map.empty ++ [''x'' \<mapsto> VStr ''3''] ++ [''x'' \<mapsto> VStr ''2'']), state0) \<and>
   (Map.empty ++ [''x'' \<mapsto> VStr ''3''] ++ [''x'' \<mapsto> VStr ''2'']) ''x'' = Some (VStr ''2'')"
proof -
  let ?cfgs = "[\<lparr>plugin_name = ''b'', plugin_options = VStr ''1''\<rparr>,
                \<lparr>plugin_name = ''a'', plugin_options = VStr ''2''\<rparr>,
                \<lparr>plugin_name = ''b'', plugin_options = VStr ''3''\<rparr>]"
  let ?site = "fst (SimplSite_new demo_markdown demo_compile key_registry (demo_config ?cfgs))"
  have order: "registrationOrder key_registry ?cfgs =
                 [(''b'', key_plugin (VStr ''1'')), (''a'', key_plugin (VStr ''2'')),
                  (''b'', key_plugin (VStr ''3''))]"
    by (simp add: key_registry_def)
  have built: "plugins ?site = [(''b'', key_plugin (VStr ''3'')), (''a'', key_plugin (VStr ''2''))]"
    "markdownProcessor ?site = demo_markdown"
    by (simp_all add: SimplSite_new_def demo_config_def key_registry_def split: prod.splits)
  have "processContent ?site ''c'' ''post'' ''/blog/x'' state0 =
          (Inr (''c32'', Map.empty ++ [''x'' \<mapsto> VStr ''3''] ++ [''x'' \<mapsto> VStr ''2'']), state0)"
    by (simp add: processContent_def built demo_markdown_def key_plugin_def io_defs)
  with order built(1) show ?thesis by simp
qed

section \<open>Layout composition\<close>

text \<open>
  Claim C6. \<open>render\<close> returns an output exactly when the template file exists, its
  compiled function is obtained and renders the context to a body, and then either no
  file exists at the layout path \<open>baseDir/layoutsDir/defaultLayout+extname\<close> and the
  output is the body as it is, or a file exists there and the output is what the compiled
  layout makes of the context extended with \<open>body\<close>. A compiled function is the one the
  cache holds for the path or, when the cache holds none, the compiled content of the file.
\<close>

theorem render_layout:
  "(fst (render rt engine templateName context s) = Inr out \<longleftrightarrow>
     fs_exists rt (templatePath rt engine templateName) = Inr True \<and>
     (\<exists>template s1 body.
        compiledTemplate rt engine (templatePath rt engine templateName)
          (s\<lparr>console := console s @ [ConsoleLog (''Rendering template: '' @ templateName)]\<rparr>) =
          (Inr template, s1) \<and>
        template context = Inr body \<and>
        (fs_exists rt (layoutPath rt engine) = Inr False \<and> out = body \<or>
         fs_exists rt (layoutPath rt engine) = Inr True \<and>
         (\<exists>layout s2.
            compiledTemplate rt engine (layoutPath rt engine) s1 = (Inr layout, s2) \<and>
            layout (context(''body'' \<mapsto> VStr body)) = Inr out))))
 \<and> (compiledTemplate rt engine p c1 = (Inr t, c2) \<longleftrightarrow>
       compiledTemplates c1 p = Some t \<and> c2 = c1 \<or>
       compiledTemplates c1 p = None \<and>
       (\<exists>fileContent. readTextFile rt p = Inr fileContent \<and>
          t = handlebars_compile engine fileContent \<and>
          c2 = c1\<lparr>compiledTemplates := (compiledTemplates c1)(p \<mapsto> t)\<rparr>))"
proof (rule conjI)
  show "fst (render rt engine templateName context s) = Inr out \<longleftrightarrow>
     fs_exists rt (templatePath rt engine templateName) = Inr True \<and>
     (\<exists>template s1 body.
        compiledTemplate rt engine (templatePath rt engine templateName)
          (s\<lparr>console := console s @ [ConsoleLog (''Rendering template: '' @ templateName)]\<rparr>) =
          (Inr template, s1) \<and>
        template context = Inr body \<and>
        (fs_exists rt (layoutPath rt engine) = Inr False \<and> out = body \<or>
         fs_exists rt (layoutPath rt engine) = Inr True \<and>
         (\<exists>layout s2.
            compiledTemplate rt engine (layoutPath rt engine) s1 = (Inr layout, s2) \<and>
            layout (context(''body'' \<mapsto> VStr body)) = Inr out)))"
    by (auto simp add: render_def io_defs split: sum.splits prod.splits if_splits)
next
  show "compiledTemplate rt engine p c1 = (Inr t, c2) \<longleftrightarrow>
       compiledTemplates c1 p = Some t \<and> c2 = c1 \<or>
       compiledTemplates c1 p = None \<and>
       (\<exists>fileContent. readTextFile rt p = Inr fileContent \<and>
          t = handlebars_compile engine fileContent \<and>
          c2 = c1\<lparr>compiledTemplates := (compiledTemplates c1)(p \<mapsto> t)\<rparr>)"
    by (auto simp add: compiledTemplate_def Let_def split: option.splits sum.splits)
qed

text \<open>
  Witness: the template \<open>t/page.hbs\<close> renders the content \<open>hi\<close> to the body \<open>P:hi\<close>; with
  the layout file \<open>t/layouts/base.hbs\<close> the output is \<open>L:P:hi\<close>, without it the output is
  the body.
\<close>

theorem render_layout_witness:
  "fst (render (demo_runtime files_layout []) (TemplateEngine_new ''t'' demo_compile) ''page''
          [''content'' \<mapsto> VStr ''hi''] state0) = Inr ''L:P:hi'' \<and>
   fst (render (demo_runtime files_404 []) (TemplateEngine_new ''t'' demo_compile) ''page''
          [''content'' \<mapsto> VStr ''hi''] state0) = Inr ''P:hi''"
proof -
  let ?engine = "TemplateEngine_new ''t'' demo_compile"
  let ?ctx = "[''content'' \<mapsto> VStr ''hi'']"
  have paths: "templatePath (demo_runtime fs []) ?engine ''page'' = ''t/page.hbs''"
    "layoutPath (demo_runtime fs []) ?engine = ''t/layouts/base.hbs''" for fs
    by (simp_all add: templatePath_def layoutPath_def demo_runtime_def demo_join_def
          TemplateEngine_new_def)
  have with_layout:
    "fst (render (demo_runtime files_layout []) ?engine ''page'' ?ctx state0) = Inr ''L:P:hi''"
    using render_layout [of "demo_runtime files_layout []" ?engine "''page''" ?ctx state0
        "''L:P:hi''", THEN conjunct1]
    by (simp add: paths)
       (simp add: compiledTemplate_def Let_def demo_runtime_def files_layout_def
          TemplateEngine_new_def demo_compile_def state0_def)
  have without_layout:
    "fst (render (demo_runtime files_404 []) ?engine ''page'' ?ctx state0) = Inr ''P:hi''"
    using render_layout [of "demo_runtime files_404 []" ?engine "''page''" ?ctx state0
        "''P:hi''", THEN conjunct1]
    by (simp add: paths)
       (simp add: compiledTemplate_def Let_def demo_runtime_def files_404_def
          TemplateEngine_new_def demo_compile_def state0_def)
  from with_layout without_layout show ?thesis by simp
qed

section \<open>Plugin registration\<close>

text \<open>
  Claim C10. The plugin map that \<open>initializePlugins\<close> fills from the empty map has
  distinct names. When a configuration loads and no later configuration has its name,
  the map holds its plugin under that name, whichever configurations of the same name
  came before it. So for every name at most one entry of the site's plugin map has that
  name, and the transform and extendTemplate loops, which run over the values of this
  map, meet at most one plugin per name.
\<close>

theorem initializePlugins_replaces:
  "distinct (map fst (fst (initializePlugins getPluginClass cfgs ([], con))))
 \<and> length (filter (\<lambda>entry. fst entry = n)
             (plugins (fst (SimplSite_new markdown compile getPluginClass cfg)))) \<le> 1
 \<and> (cfgs = pre @ c # post \<and> (\<forall>c' \<in> set post. plugin_name c' \<noteq> plugin_name c) \<and>
     getPluginClass (plugin_name c) = Inr PluginClass \<and>
     PluginClass (plugin_options c) = Inr plugin \<longrightarrow>
       map_of (fst (initializePlugins getPluginClass cfgs ([], con))) (plugin_name c) =
         Some plugin)"
proof (intro conjI impI)
  show "distinct (map fst (fst (initializePlugins getPluginClass cfgs ([], con))))"
    by (simp add: initializePlugins_distinct)
next
  have built: "plugins (fst (SimplSite_new markdown compile getPluginClass cfg)) =
                 fst (initializePlugins getPluginClass (cfg_plugins cfg) ([], []))"
    by (simp add: SimplSite_new_def split: prod.splits)
  have "distinct (map fst (fst (initializePlugins getPluginClass (cfg_plugins cfg) ([], []))))"
    by (simp add: initializePlugins_distinct)
  from distinct_keys_once [OF this, of n] built
  show "length (filter (\<lambda>entry. fst entry = n)
          (plugins (fst (SimplSite_new markdown compile getPluginClass cfg)))) \<le> 1"
    by simp
next
  assume h: "cfgs = pre @ c # post \<and> (\<forall>c' \<in> set post. plugin_name c' \<noteq> plugin_name c) \<and>
     getPluginClass (plugin_name c) = Inr PluginClass \<and>
     PluginClass (plugin_options c) = Inr plugin"
  obtain ps1 con1 where before: "initializePlugins getPluginClass pre ([], con) = (ps1, con1)"
    by (cases "initializePlugins getPluginClass pre ([], con)")
  let ?con2 = "con1 @ [ConsoleLog (''Successfully loaded and initialized plugin: '' @
                                   plugin_name c)]"
  from h before have
    "initializePlugins getPluginClass cfgs ([], con) =
       initializePlugins getPluginClass post (Map_set (plugin_name c) plugin ps1, ?con2)"
    by (simp add: initializePlugins_append)
  moreover from h have
    "map_of (fst (initializePlugins getPluginClass post
                    (Map_set (plugin_name c) plugin ps1, ?con2))) (plugin_name c) =
       map_of (Map_set (plugin_name c) plugin ps1) (plugin_name c)"
    by (simp add: initializePlugins_other)
  ultimately show
    "map_of (fst (initializePlugins getPluginClass cfgs ([], con))) (plugin_name c) = Some plugin"
    by (simp add: map_of_Map_set)
qed

text \<open>
  Witness: two configurations of the plugin \<open>tag\<close>, with options \<open>one\<close> and \<open>two\<close>, and an
  unknown plugin between them. The map has the single entry made from the second.
\<close>

theorem initializePlugins_replaces_witness:
  "fst (initializePlugins demo_registry
          [\<lparr>plugin_name = ''tag'', plugin_options = VStr ''one''\<rparr>,
           \<lparr>plugin_name = ''toc'', plugin_options = VNum 0\<rparr>,
           \<lparr>plugin_name = ''tag'', plugin_options = VStr ''two''\<rparr>] ([], [])) =
     [(''tag'', tag_plugin (VStr ''two''))] \<and>
   map_of (fst (initializePlugins demo_registry
          [\<lparr>plugin_name = ''tag'', plugin_options = VStr ''one''\<rparr>,
           \<lparr>plugin_name = ''toc'', plugin_options = VNum 0\<rparr>,
           \<lparr>plugin_name = ''tag'', plugin_options = VStr ''two''\<rparr>] ([], []))) ''tag'' =
     Some (tag_plugin (VStr ''two''))"
proof -
  let ?cfgs = "[\<lparr>plugin_name = ''tag'', plugin_options = VStr ''one''\<rparr>,
                \<lparr>plugin_name = ''toc'', plugin_options = VNum 0\<rparr>,
                \<lparr>plugin_name = ''tag'', plugin_options = VStr ''two''\<rparr>]"
  have run: "fst (initializePlugins demo_registry ?cfgs ([], [])) =
               [(''tag'', tag_plugin (VStr ''two''))]"
    by (simp add: demo_registry_def)
  have "map_of (fst (initializePlugins demo_registry ?cfgs ([], []))) ''tag'' =
          Some (tag_plugin (VStr ''two''))"
    using initializePlugins_replaces [THEN conjunct2, THEN conjunct2, rule_format,
        of ?cfgs "[\<lparr>plugin_name = ''tag'', plugin_options = VStr ''one''\<rparr>,
                   \<lparr>plugin_name = ''toc'', plugin_options = VNum 0\<rparr>]"
           "\<lparr>plugin_name = ''tag'', plugin_options = VStr ''two''\<rparr>" "[]"
           demo_registry "\<lambda>opt. Inr (tag_plugin opt)" "tag_plugin (VStr ''two'')" "[]"]
    by (simp add: demo_registry_def)
  with run show ?thesis by simp
qed

end
